theory Spec2Isabelle
  imports Main
begin

section \<open>Values shared by the handlers\<close>

text \<open>
  Strings are ASCII character lists. A value read from a JSON body or from a header is a
  \<open>string option\<close>: \<open>None\<close> is JavaScript's \<open>undefined\<close> (the key is absent). Document
  identifiers (MongoDB ObjectIds) are natural numbers, handed out by a counter of the store,
  so that a new identifier differs from every identifier handed out before.
\<close>

type_synonym oid = nat

text \<open>\<open>!x\<close> for a string-or-undefined \<open>x\<close>: undefined and the empty string are falsy.\<close>

fun falsy :: "string option \<Rightarrow> bool" where
  "falsy None = True"
| "falsy (Some s) = (s = [])"

text \<open>A value inside a template literal: \<open>`${x}`\<close>.\<close>

fun js_string :: "string option \<Rightarrow> string" where
  "js_string None = ''undefined''"
| "js_string (Some s) = s"

text \<open>
  A value of a JSON body that need not be a string: absent, a string or a number.
  \<open>!x\<close> holds for an absent value, the empty string and zero.
\<close>

datatype js_value = Undefined | Str string | Num int

fun falsy_value :: "js_value \<Rightarrow> bool" where
  "falsy_value Undefined = True"
| "falsy_value (Str s) = (s = [])"
| "falsy_value (Num n) = (n = 0)"

text \<open>
  The errors that a handler's \<open>catch\<close> block reports as \<open>error.message\<close>: a document that
  fails validation, a violated unique index, a secret that \<open>jwt.sign\<close> refuses, an argument
  that \<open>bcrypt.compare\<close> refuses, a call of something that is not a function, and a mail
  that the relay rejects.
\<close>

datatype failure =
    ValidationError
  | DuplicateKey
  | SecretMissing
  | IllegalArguments
  | TypeError
  | MailError string

section \<open>Libraries: jsonwebtoken and bcryptjs\<close>

text \<open>
  The two libraries are not part of the repository. They are modelled symbolically, the way
  cryptographic operations are modelled in protocol verification: a signed token is a
  constructor holding its payload, the secret it was signed with and its expiry time, and
  it verifies under a secret exactly when it was signed with that secret. The payloads the
  handlers sign are \<open>{ userId, role }\<close> and \<open>{ userId }\<close>: a record whose role claim is
  optional. Any other text presented as a token is \<open>Text\<close>.

  \<open>jwt.verify\<close> checks the structure and the signature first and the expiry after, and a
  token is expired once the clock has reached its expiry time. \<open>jwt.sign\<close> throws when the
  secret it is given is undefined or empty (an environment variable that is not set, or
  set to nothing, is the empty string here), so no token is signed with the empty secret.
\<close>

record payload =
  userId :: oid
  role_claim :: "string option"

datatype token = Jwt payload string nat | Text string

datatype error_name = TokenExpiredError | JsonWebTokenError | OtherError

definition jwt_sign :: "payload \<Rightarrow> string \<Rightarrow> nat \<Rightarrow> nat \<Rightarrow> failure + token" where
  "jwt_sign p secret now expiresIn =
     (if secret = [] then Inl SecretMissing else Inr (Jwt p secret (now + expiresIn)))"

fun jwt_verify :: "token \<Rightarrow> string \<Rightarrow> nat \<Rightarrow> error_name + payload" where
  "jwt_verify (Text s) secret now = Inl JsonWebTokenError"
| "jwt_verify (Jwt p k exp) secret now =
     (if k \<noteq> secret then Inl JsonWebTokenError
      else if exp \<le> now then Inl TokenExpiredError
      else Inr p)"

text \<open>
  A bcrypt hash seals the password; comparing succeeds for that password only, and
  \<open>bcrypt.compare\<close> rejects a first argument that is not a string.
\<close>

datatype pwhash = Bcrypt nat string

definition bcrypt_hash :: "string \<Rightarrow> nat \<Rightarrow> pwhash" where
  "bcrypt_hash password rounds = Bcrypt rounds password"

fun bcrypt_compare :: "js_value \<Rightarrow> pwhash \<Rightarrow> failure + bool" where
  "bcrypt_compare (Str password) (Bcrypt rounds p) = Inr (password = p)"
| "bcrypt_compare v h = Inl IllegalArguments"

section \<open>Schemas and store of src/api/index.js\<close>

record user =
  user_id :: oid
  user_name :: string
  user_email :: string
  user_password :: pwhash
  user_role :: string
  createdAt :: nat
  refreshTokens :: "token list"

record course =
  course_id :: oid
  course_name :: string
  course_code :: string
  course_lessons :: "oid list"
  course_assignments :: "oid list"
  createdBy :: oid

record lesson =
  lesson_id :: oid
  lesson_title :: string
  youtubeLink :: string
  lesson_course :: oid

record assignment =
  assignment_id :: oid
  assignment_title :: string
  link :: string
  assignment_course :: oid

text \<open>
  The four collections, in insertion order, and the ObjectId counter.
\<close>

record db =
  Users :: "user list"
  Courses :: "course list"
  Lessons :: "lesson list"
  Assignments :: "assignment list"
  next_oid :: oid

definition empty_db :: db where
  "empty_db = \<lparr>Users = [], Courses = [], Lessons = [], Assignments = [], next_oid = 0\<rparr>"

text \<open>The environment variables the handlers read, lifetimes in seconds.\<close>

record config =
  JWT_SECRET :: string
  JWT_REFRESH_SECRET :: string
  JWT_ACCESS_EXPIRES_IN :: "nat option"
  JWT_REFRESH_EXPIRES_IN :: "nat option"

text \<open>\<open>process.env.JWT_ACCESS_EXPIRES_IN || '15m'\<close> and \<open>process.env.JWT_REFRESH_EXPIRES_IN || '7d'\<close>.\<close>

definition access_expiresIn :: "config \<Rightarrow> nat" where
  "access_expiresIn cfg = (case JWT_ACCESS_EXPIRES_IN cfg of None \<Rightarrow> 15 * 60 | Some n \<Rightarrow> n)"

definition refresh_expiresIn :: "config \<Rightarrow> nat" where
  "refresh_expiresIn cfg =
     (case JWT_REFRESH_EXPIRES_IN cfg of None \<Rightarrow> 7 * 24 * 60 * 60 | Some n \<Rightarrow> n)"

section \<open>Responses\<close>

datatype json =
    JNull
  | JStr string
  | JOid oid
  | JTok token
  | JErr failure
  | JArr "json list"
  | JObj "(string \<times> json) list"

datatype response = Response nat json

fun status :: "response \<Rightarrow> nat" where
  "status (Response s b) = s"

fun body :: "response \<Rightarrow> json" where
  "body (Response s b) = b"

text \<open>Reading a key of a JSON object.\<close>

fun field :: "string \<Rightarrow> json \<Rightarrow> json option" where
  "field k (JObj kvs) = map_of kvs k"
| "field k j = None"

text \<open>
  A middleware either answers the request itself or calls \<open>next()\<close> with the user it has
  attached to the request.
\<close>

datatype auth = Halt response | Next user

section \<open>authenticateToken\<close>

text \<open>
  The three headers the middleware and the handlers read. The authorization header is held
  as the list of its fields between spaces (what \<open>authHeader.split(' ')\<close> returns), each a
  token text; a missing header is \<open>None\<close>.
\<close>

record headers =
  authorization :: "token list option"
  hdr_email :: "string option"
  hdr_role :: "string option"

text \<open>\<open>authHeader && authHeader.split(' ')[1]\<close>: the second field, undefined when there is none.\<close>

fun bearer :: "token list option \<Rightarrow> token option" where
  "bearer None = None"
| "bearer (Some []) = None"
| "bearer (Some [scheme]) = None"
| "bearer (Some (scheme # t # rest)) = Some t"

text \<open>\<open>User.findOne({ _id, email })\<close> and \<open>User.findOne({ email })\<close>.\<close>

definition findOne_id_email :: "db \<Rightarrow> oid \<Rightarrow> string \<Rightarrow> user option" where
  "findOne_id_email d i e = find (\<lambda>u. user_id u = i \<and> user_email u = e) (Users d)"

definition findOne_email :: "db \<Rightarrow> string \<Rightarrow> user option" where
  "findOne_email d e = find (\<lambda>u. user_email u = e) (Users d)"

text \<open>The callback of \<open>user.refreshTokens.some\<close>: a token that fails to verify counts as false.\<close>

definition refresh_matches :: "config \<Rightarrow> nat \<Rightarrow> payload \<Rightarrow> token \<Rightarrow> bool" where
  "refresh_matches cfg now decoded t =
     (case jwt_verify t (JWT_REFRESH_SECRET cfg) now of
        Inl e \<Rightarrow> False
      | Inr rt \<Rightarrow> userId rt = userId decoded)"

definition reject :: "nat \<Rightarrow> string \<Rightarrow> string \<Rightarrow> response" where
  "reject st msg code = Response st (JObj [(''message'', JStr msg), (''code'', JStr code)])"

text \<open>
  The \<open>catch\<close> block of the middleware, by the name of the error caught. \<open>jwt.verify\<close>
  raises the first two; \<open>OtherError\<close> stands for every other error (a failing store
  lookup), which the store of this model, a value, never raises.
\<close>

fun auth_catch :: "error_name \<Rightarrow> response" where
  "auth_catch TokenExpiredError = reject 401 ''Token expired'' ''TOKEN_EXPIRED''"
| "auth_catch JsonWebTokenError = reject 403 ''Invalid token'' ''INVALID_TOKEN''"
| "auth_catch OtherError = reject 500 ''Authentication failed'' ''AUTH_FAILED''"

definition authenticateToken :: "config \<Rightarrow> nat \<Rightarrow> db \<Rightarrow> headers \<Rightarrow> auth" where
  "authenticateToken cfg now d h =
     (case bearer (authorization h) of
        None \<Rightarrow> Halt (reject 401 ''Authorization token required'' ''TOKEN_MISSING'')
      | Some tok \<Rightarrow>
          if tok = Text []
          then Halt (reject 401 ''Authorization token required'' ''TOKEN_MISSING'')
          else if falsy (hdr_email h)
          then Halt (reject 401 ''User email required'' ''EMAIL_MISSING'')
          else
            (case jwt_verify tok (JWT_SECRET cfg) now of
               Inl err \<Rightarrow> Halt (auth_catch err)
             | Inr decoded \<Rightarrow>
                 (case findOne_id_email d (userId decoded) (js_string (hdr_email h)) of
                    None \<Rightarrow> Halt (reject 403 ''Invalid credentials'' ''INVALID_CREDENTIALS'')
                  | Some usr \<Rightarrow>
                      if list_ex (refresh_matches cfg now decoded) (refreshTokens usr)
                      then Next usr
                      else Halt (reject 403 ''Token invalidated'' ''TOKEN_INVALIDATED''))))"

section \<open>POST /api/register and POST /api/login\<close>

record register_body =
  reg_name :: "string option"
  reg_email :: "string option"
  reg_password :: "string option"

text \<open>
  The body of a login request. The password is any value of the body; the email is taken
  as a string or absent.
\<close>

record login_body =
  login_email :: "string option"
  login_password :: js_value

definition reply :: "nat \<Rightarrow> string \<Rightarrow> response" where
  "reply st msg = Response st (JObj [(''message'', JStr msg)])"

definition reply_error :: "nat \<Rightarrow> string \<Rightarrow> failure \<Rightarrow> response" where
  "reply_error st msg err = Response st (JObj [(''message'', JStr msg), (''error'', JErr err)])"

text \<open>
  \<open>newUser.save()\<close> of a new document: the unique index on \<open>email\<close> refuses a second
  document with the same email.
\<close>

definition insert_user :: "db \<Rightarrow> user \<Rightarrow> failure + db" where
  "insert_user d u =
     (if list_ex (\<lambda>x. user_email x = user_email u) (Users d) then Inl DuplicateKey
      else Inr (d\<lparr>Users := Users d @ [u]\<rparr>))"

text \<open>
  \<open>usr.refreshTokens.push(refreshToken); await usr.save()\<close> on a stored document: the
  token is appended to the array of the document with that \<open>_id\<close>.
\<close>

definition push_refreshToken :: "db \<Rightarrow> oid \<Rightarrow> token \<Rightarrow> db" where
  "push_refreshToken d i t =
     d\<lparr>Users := map (\<lambda>x. if user_id x = i then x\<lparr>refreshTokens := refreshTokens x @ [t]\<rparr> else x)
                    (Users d)\<rparr>"

definition access_token :: "config \<Rightarrow> nat \<Rightarrow> user \<Rightarrow> failure + token" where
  "access_token cfg now u =
     jwt_sign \<lparr>userId = user_id u, role_claim = Some (user_role u)\<rparr>
       (JWT_SECRET cfg) now (access_expiresIn cfg)"

definition refresh_token :: "config \<Rightarrow> nat \<Rightarrow> user \<Rightarrow> failure + token" where
  "refresh_token cfg now u =
     jwt_sign \<lparr>userId = user_id u, role_claim = None\<rparr>
       (JWT_REFRESH_SECRET cfg) now (refresh_expiresIn cfg)"

definition user_view :: "user \<Rightarrow> json" where
  "user_view u =
     JObj [(''id'', JOid (user_id u)), (''name'', JStr (user_name u)),
           (''email'', JStr (user_email u)), (''role'', JStr (user_role u))]"

text \<open>
  POST /api/register. The user is saved before the tokens are signed: when \<open>jwt.sign\<close>
  throws, the \<open>catch\<close> block answers 500 and the user saved stays in the store. The store
  itself is a value and its operations do not fail otherwise.
\<close>

definition post_register :: "config \<Rightarrow> nat \<Rightarrow> db \<Rightarrow> register_body \<Rightarrow> response \<times> db" where
  "post_register cfg now d b =
     (if falsy (reg_name b) \<or> falsy (reg_email b) \<or> falsy (reg_password b)
      then (reply 400 ''All fields are required'', d)
      else
        let name = js_string (reg_name b);
            email = js_string (reg_email b);
            password = js_string (reg_password b)
        in
        if length password < 8
        then (reply 400 ''Password must be at least 8 characters'', d)
        else
          (case findOne_email d email of
             Some existingUser \<Rightarrow> (reply 400 ''Email already in use'', d)
           | None \<Rightarrow>
               let hashedPassword = bcrypt_hash password 10;
                   userCount = length (Users d);
                   role = (if userCount = 0 then ''admin'' else ''student'');
                   newUser = \<lparr>user_id = next_oid d, user_name = name, user_email = email,
                              user_password = hashedPassword, user_role = role,
                              createdAt = now, refreshTokens = []\<rparr>
               in
               (case insert_user (d\<lparr>next_oid := Suc (next_oid d)\<rparr>) newUser of
                  Inl err \<Rightarrow> (reply_error 500 ''Registration failed'' err, d)
                | Inr d1 \<Rightarrow>
                    (case access_token cfg now newUser of
                       Inl err \<Rightarrow> (reply_error 500 ''Registration failed'' err, d1)
                     | Inr token \<Rightarrow>
                         (case refresh_token cfg now newUser of
                            Inl err \<Rightarrow> (reply_error 500 ''Registration failed'' err, d1)
                          | Inr refreshToken \<Rightarrow>
                              let d2 = push_refreshToken d1 (user_id newUser) refreshToken in
                              (Response 201
                                 (JObj [(''message'', JStr ''User registered successfully''),
                                        (''role'', JStr (user_role newUser)),
                                        (''token'', JTok token),
                                        (''refreshToken'', JTok refreshToken),
                                        (''user'', user_view newUser)]),
                               d2))))))"

text \<open>
  POST /api/login. An error thrown by \<open>bcrypt.compare\<close> or by \<open>jwt.sign\<close> reaches the
  \<open>catch\<close> block, which answers 500; nothing has been written to the store by then.
\<close>

definition post_login :: "config \<Rightarrow> nat \<Rightarrow> db \<Rightarrow> login_body \<Rightarrow> response \<times> db" where
  "post_login cfg now d b =
     (if falsy (login_email b) \<or> falsy_value (login_password b)
      then (reply 400 ''Email and password required'', d)
      else
        let email = js_string (login_email b);
            password = login_password b
        in
        (case findOne_email d email of
           None \<Rightarrow> (reply 401 ''Invalid email or password'', d)
         | Some usr \<Rightarrow>
             (case bcrypt_compare password (user_password usr) of
                Inl err \<Rightarrow> (reply_error 500 ''Login failed'' err, d)
              | Inr isPasswordValid \<Rightarrow>
                  if isPasswordValid
                  then
                    (case access_token cfg now usr of
                       Inl err \<Rightarrow> (reply_error 500 ''Login failed'' err, d)
                     | Inr token \<Rightarrow>
                         (case refresh_token cfg now usr of
                            Inl err \<Rightarrow> (reply_error 500 ''Login failed'' err, d)
                          | Inr refreshToken \<Rightarrow>
                              let d1 = push_refreshToken d (user_id usr) refreshToken in
                              (Response 200
                                 (JObj [(''message'', JStr ''Login successful''),
                                        (''token'', JTok token),
                                        (''refreshToken'', JTok refreshToken),
                                        (''user'', user_view usr)]),
                               d1)))
                  else (reply 401 ''Invalid email or password'', d))))"

text \<open>Registration requests handled one after the other, each at its own time.\<close>

fun register_all :: "config \<Rightarrow> db \<Rightarrow> (nat \<times> register_body) list \<Rightarrow> response list \<times> db" where
  "register_all cfg d [] = ([], d)"
| "register_all cfg d ((now, b) # rest) =
     (case post_register cfg now d b of
        (r, d1) \<Rightarrow> (case register_all cfg d1 rest of (rs, d2) \<Rightarrow> (r # rs, d2)))"

section \<open>Course catalog handlers\<close>

text \<open>
  The create-course handler runs inside \<open>try\<close>/\<open>catch\<close> and always answers. The other
  catalog handlers have no \<open>catch\<close>: when a store operation rejects, the handler sends no
  response of its own, which is the outcome \<open>Rejected\<close>.
\<close>

datatype outcome = Replied response | Rejected failure

record course_body =
  body_name :: "string option"
  body_code :: "string option"

record lesson_body =
  body_title :: "string option"
  body_youtubeLink :: "string option"

record assignment_body =
  body_atitle :: "string option"
  body_link :: "string option"

text \<open>
  The body of an update request, passed as it is to \<open>findByIdAndUpdate\<close>: the fields of the
  schema it sets.
\<close>

record course_update =
  set_name :: "string option"
  set_code :: "string option"
  set_lessons :: "oid list option"
  set_assignments :: "oid list option"
  set_createdBy :: "oid option"

record lesson_update =
  set_title :: "string option"
  set_youtubeLink :: "string option"
  set_lesson_course :: "oid option"

record assignment_update =
  set_atitle :: "string option"
  set_link :: "string option"
  set_assignment_course :: "oid option"

definition course_json :: "course \<Rightarrow> json" where
  "course_json c =
     JObj [(''_id'', JOid (course_id c)), (''name'', JStr (course_name c)),
           (''code'', JStr (course_code c)), (''lessons'', JArr (map JOid (course_lessons c))),
           (''assignments'', JArr (map JOid (course_assignments c))),
           (''createdBy'', JOid (createdBy c))]"

definition lesson_json :: "lesson \<Rightarrow> json" where
  "lesson_json l =
     JObj [(''_id'', JOid (lesson_id l)), (''title'', JStr (lesson_title l)),
           (''youtubeLink'', JStr (youtubeLink l)), (''course'', JOid (lesson_course l))]"

definition assignment_json :: "assignment \<Rightarrow> json" where
  "assignment_json a =
     JObj [(''_id'', JOid (assignment_id a)), (''title'', JStr (assignment_title a)),
           (''link'', JStr (link a)), (''course'', JOid (assignment_course a))]"

fun json_or_null :: "('a \<Rightarrow> json) \<Rightarrow> 'a option \<Rightarrow> json" where
  "json_or_null f None = JNull"
| "json_or_null f (Some x) = f x"

text \<open>
  \<open>new Course({ name, code, createdBy }).save()\<close>: \<open>name\<close> and \<open>code\<close> are required (an
  empty string does not satisfy \<open>required\<close>) and \<open>code\<close> is unique.
\<close>

definition save_course :: "db \<Rightarrow> string option \<Rightarrow> string option \<Rightarrow> oid \<Rightarrow> failure + course \<times> db" where
  "save_course d name code creator =
     (if falsy name \<or> falsy code then Inl ValidationError
      else if list_ex (\<lambda>x. course_code x = js_string code) (Courses d) then Inl DuplicateKey
      else
        let c = \<lparr>course_id = next_oid d, course_name = js_string name,
                 course_code = js_string code, course_lessons = [], course_assignments = [],
                 createdBy = creator\<rparr>
        in Inr (c, d\<lparr>Courses := Courses d @ [c], next_oid := Suc (next_oid d)\<rparr>))"

definition save_lesson :: "db \<Rightarrow> string option \<Rightarrow> string option \<Rightarrow> oid \<Rightarrow> failure + lesson \<times> db" where
  "save_lesson d title yt courseId =
     (if falsy title \<or> falsy yt then Inl ValidationError
      else
        let l = \<lparr>lesson_id = next_oid d, lesson_title = js_string title,
                 youtubeLink = js_string yt, lesson_course = courseId\<rparr>
        in Inr (l, d\<lparr>Lessons := Lessons d @ [l], next_oid := Suc (next_oid d)\<rparr>))"

definition save_assignment :: "db \<Rightarrow> string option \<Rightarrow> string option \<Rightarrow> oid \<Rightarrow> failure + assignment \<times> db" where
  "save_assignment d title lnk courseId =
     (if falsy title \<or> falsy lnk then Inl ValidationError
      else
        let a = \<lparr>assignment_id = next_oid d, assignment_title = js_string title,
                 link = js_string lnk, assignment_course = courseId\<rparr>
        in Inr (a, d\<lparr>Assignments := Assignments d @ [a], next_oid := Suc (next_oid d)\<rparr>))"

text \<open>\<open>Course.findByIdAndUpdate(courseId, { $push: { lessons: id } })\<close>, and the same for assignments.\<close>

definition push_lesson :: "db \<Rightarrow> oid \<Rightarrow> oid \<Rightarrow> db" where
  "push_lesson d courseId i =
     d\<lparr>Courses := map (\<lambda>c. if course_id c = courseId
                            then c\<lparr>course_lessons := course_lessons c @ [i]\<rparr> else c)
                      (Courses d)\<rparr>"

definition push_assignment :: "db \<Rightarrow> oid \<Rightarrow> oid \<Rightarrow> db" where
  "push_assignment d courseId i =
     d\<lparr>Courses := map (\<lambda>c. if course_id c = courseId
                            then c\<lparr>course_assignments := course_assignments c @ [i]\<rparr> else c)
                      (Courses d)\<rparr>"

definition findCourse :: "db \<Rightarrow> oid \<Rightarrow> course option" where
  "findCourse d i = find (\<lambda>c. course_id c = i) (Courses d)"

definition findLesson :: "db \<Rightarrow> oid \<Rightarrow> lesson option" where
  "findLesson d i = find (\<lambda>l. lesson_id l = i) (Lessons d)"

definition findAssignment :: "db \<Rightarrow> oid \<Rightarrow> assignment option" where
  "findAssignment d i = find (\<lambda>a. assignment_id a = i) (Assignments d)"

fun or_else :: "'a option \<Rightarrow> 'a \<Rightarrow> 'a" where
  "or_else None x = x"
| "or_else (Some y) x = y"

definition apply_course_update :: "course_update \<Rightarrow> course \<Rightarrow> course" where
  "apply_course_update p c =
     c\<lparr>course_name := or_else (set_name p) (course_name c),
       course_code := or_else (set_code p) (course_code c),
       course_lessons := or_else (set_lessons p) (course_lessons c),
       course_assignments := or_else (set_assignments p) (course_assignments c),
       createdBy := or_else (set_createdBy p) (createdBy c)\<rparr>"

definition apply_lesson_update :: "lesson_update \<Rightarrow> lesson \<Rightarrow> lesson" where
  "apply_lesson_update p l =
     l\<lparr>lesson_title := or_else (set_title p) (lesson_title l),
       youtubeLink := or_else (set_youtubeLink p) (youtubeLink l),
       lesson_course := or_else (set_lesson_course p) (lesson_course l)\<rparr>"

definition apply_assignment_update :: "assignment_update \<Rightarrow> assignment \<Rightarrow> assignment" where
  "apply_assignment_update p a =
     a\<lparr>assignment_title := or_else (set_atitle p) (assignment_title a),
       link := or_else (set_link p) (link a),
       assignment_course := or_else (set_assignment_course p) (assignment_course a)\<rparr>"

definition forbidden :: response where
  "forbidden = reply 403 ''Forbidden''"

text \<open>POST /api/courses: the role is read from the \<open>role\<close> header.\<close>

definition post_courses :: "headers \<Rightarrow> user \<Rightarrow> db \<Rightarrow> course_body \<Rightarrow> outcome \<times> db" where
  "post_courses h usr d b =
     (if hdr_role h \<noteq> Some ''admin'' then (Replied forbidden, d)
      else
        (case save_course d (body_name b) (body_code b) (user_id usr) of
           Inl err \<Rightarrow> (Replied (reply_error 500 ''Error creating course'' err), d)
         | Inr (c, d1) \<Rightarrow> (Replied (Response 201 (course_json c)), d1)))"

text \<open>PUT and DELETE /api/courses/:id: the role is read from \<open>req.user\<close>.\<close>

definition put_courses :: "user \<Rightarrow> db \<Rightarrow> oid \<Rightarrow> course_update \<Rightarrow> outcome \<times> db" where
  "put_courses usr d i p =
     (if user_role usr \<noteq> ''admin'' then (Replied forbidden, d)
      else
        (case findCourse d i of
           None \<Rightarrow> (Replied (Response 200 JNull), d)
         | Some c \<Rightarrow>
             let c1 = apply_course_update p c in
             if list_ex (\<lambda>x. course_id x \<noteq> i \<and> course_code x = course_code c1) (Courses d)
             then (Rejected DuplicateKey, d)
             else (Replied (Response 200 (course_json c1)),
                   d\<lparr>Courses := map (\<lambda>x. if course_id x = i then c1 else x) (Courses d)\<rparr>)))"

definition delete_courses :: "user \<Rightarrow> db \<Rightarrow> oid \<Rightarrow> outcome \<times> db" where
  "delete_courses usr d i =
     (if user_role usr \<noteq> ''admin'' then (Replied forbidden, d)
      else (Replied (reply 200 ''Course deleted''),
            d\<lparr>Courses := filter (\<lambda>x. course_id x \<noteq> i) (Courses d)\<rparr>))"

text \<open>POST /api/courses/:courseId/lessons, PUT and DELETE /api/lessons/:id.\<close>

definition post_lessons :: "user \<Rightarrow> db \<Rightarrow> oid \<Rightarrow> lesson_body \<Rightarrow> outcome \<times> db" where
  "post_lessons usr d courseId b =
     (if user_role usr \<noteq> ''admin'' then (Replied forbidden, d)
      else
        (case save_lesson d (body_title b) (body_youtubeLink b) courseId of
           Inl err \<Rightarrow> (Rejected err, d)
         | Inr (l, d1) \<Rightarrow>
             (Replied (Response 201 (lesson_json l)), push_lesson d1 courseId (lesson_id l))))"

definition put_lessons :: "user \<Rightarrow> db \<Rightarrow> oid \<Rightarrow> lesson_update \<Rightarrow> outcome \<times> db" where
  "put_lessons usr d i p =
     (if user_role usr \<noteq> ''admin'' then (Replied forbidden, d)
      else
        (Replied (Response 200 (json_or_null lesson_json
                    (map_option (apply_lesson_update p) (findLesson d i)))),
         d\<lparr>Lessons := map (\<lambda>x. if lesson_id x = i then apply_lesson_update p x else x)
                        (Lessons d)\<rparr>))"

definition delete_lessons :: "user \<Rightarrow> db \<Rightarrow> oid \<Rightarrow> outcome \<times> db" where
  "delete_lessons usr d i =
     (if user_role usr \<noteq> ''admin'' then (Replied forbidden, d)
      else (Replied (reply 200 ''Lesson deleted''),
            d\<lparr>Lessons := filter (\<lambda>x. lesson_id x \<noteq> i) (Lessons d)\<rparr>))"

text \<open>POST /api/courses/:courseId/assignments, PUT and DELETE /api/assignments/:id.\<close>

definition post_assignments :: "user \<Rightarrow> db \<Rightarrow> oid \<Rightarrow> assignment_body \<Rightarrow> outcome \<times> db" where
  "post_assignments usr d courseId b =
     (if user_role usr \<noteq> ''admin'' then (Replied forbidden, d)
      else
        (case save_assignment d (body_atitle b) (body_link b) courseId of
           Inl err \<Rightarrow> (Rejected err, d)
         | Inr (a, d1) \<Rightarrow>
             (Replied (Response 201 (assignment_json a)),
              push_assignment d1 courseId (assignment_id a))))"

definition put_assignments :: "user \<Rightarrow> db \<Rightarrow> oid \<Rightarrow> assignment_update \<Rightarrow> outcome \<times> db" where
  "put_assignments usr d i p =
     (if user_role usr \<noteq> ''admin'' then (Replied forbidden, d)
      else
        (Replied (Response 200 (json_or_null assignment_json
                    (map_option (apply_assignment_update p) (findAssignment d i)))),
         d\<lparr>Assignments := map (\<lambda>x. if assignment_id x = i then apply_assignment_update p x else x)
                            (Assignments d)\<rparr>))"

definition delete_assignments :: "user \<Rightarrow> db \<Rightarrow> oid \<Rightarrow> outcome \<times> db" where
  "delete_assignments usr d i =
     (if user_role usr \<noteq> ''admin'' then (Replied forbidden, d)
      else (Replied (reply 200 ''Assignment deleted''),
            d\<lparr>Assignments := filter (\<lambda>x. assignment_id x \<noteq> i) (Assignments d)\<rparr>))"

text \<open>
  The nine mutating routes. Each is registered behind \<open>authenticateToken\<close>: the handler runs
  only when the middleware calls \<open>next()\<close>, with the user the middleware attached.
\<close>

datatype mutation =
    PostCourse course_body
  | PutCourse oid course_update
  | DeleteCourse oid
  | PostLesson oid lesson_body
  | PutLesson oid lesson_update
  | DeleteLesson oid
  | PostAssignment oid assignment_body
  | PutAssignment oid assignment_update
  | DeleteAssignment oid

fun handler :: "mutation \<Rightarrow> headers \<Rightarrow> user \<Rightarrow> db \<Rightarrow> outcome \<times> db" where
  "handler (PostCourse b) h usr d = post_courses h usr d b"
| "handler (PutCourse i p) h usr d = put_courses usr d i p"
| "handler (DeleteCourse i) h usr d = delete_courses usr d i"
| "handler (PostLesson c b) h usr d = post_lessons usr d c b"
| "handler (PutLesson i p) h usr d = put_lessons usr d i p"
| "handler (DeleteLesson i) h usr d = delete_lessons usr d i"
| "handler (PostAssignment c b) h usr d = post_assignments usr d c b"
| "handler (PutAssignment i p) h usr d = put_assignments usr d i p"
| "handler (DeleteAssignment i) h usr d = delete_assignments usr d i"

definition route :: "config \<Rightarrow> nat \<Rightarrow> db \<Rightarrow> headers \<Rightarrow> mutation \<Rightarrow> outcome \<times> db" where
  "route cfg now d h m =
     (case authenticateToken cfg now d h of
        Halt r \<Rightarrow> (Replied r, d)
      | Next usr \<Rightarrow> handler m h usr d)"

section \<open>The notification service: src/api/t.js and its second copy\<close>

text \<open>
  The two files define the same \<open>POST /api/send-email\<close> handler over the same schema; one
  model serves both.
\<close>

record transaction =
  tx_wallet :: string
  tx_amount :: string
  tx_email :: string
  tx_date :: string
  tx_time :: string
  tx_status :: string

record send_body =
  wallet :: "string option"
  amount :: "string option"
  email :: "string option"
  coin :: "string option"
  network :: "string option"
  walletAddress :: "string option"
  message :: "string option"
  warning :: bool
  localcurrency :: "string option"
  cashapp_tag :: "string option"
  transaction_fee :: "string option"
  transaction_id :: "string option"
  recipient_name :: "string option"
  senderName :: "string option"

text \<open>
  The strings the handler formats from \<open>new Date()\<close>; the formatting itself belongs to the
  runtime, so they are inputs.
\<close>

record clock =
  date :: string
  time :: string
  dateTime :: string
  prettyFormat :: string

text \<open>\<open>String.prototype.toLowerCase\<close> on ASCII text.\<close>

definition lower_char :: "char \<Rightarrow> char" where
  "lower_char c =
     (case map_of (zip ''ABCDEFGHIJKLMNOPQRSTUVWXYZ'' ''abcdefghijklmnopqrstuvwxyz'') c of
        None \<Rightarrow> c
      | Some l \<Rightarrow> l)"

definition toLowerCase :: "string \<Rightarrow> string" where
  "toLowerCase s = map lower_char s"

text \<open>
  The keys of the \<open>templates\<close> object, and what \<open>templates[templateName]\<close> yields for a
  lower-case name. \<open>templates\<close> is an object literal, so a name that is not one of its keys
  is looked up on \<open>Object.prototype\<close>: \<open>constructor\<close> yields the function \<open>Object\<close>, which
  can be called and returns the object it is given; every other lower-case name yields
  \<open>undefined\<close> or, for \<open>__proto__\<close>, an object, and calling either throws a TypeError.
  All other properties of \<open>Object.prototype\<close> have an upper-case letter in their names.
\<close>

definition provider_keys :: "string list" where
  "provider_keys = [''binance'', ''coinbase'', ''bybit'', ''cashapp'', ''paypal'', ''luno'',
                    ''zelle'', ''okx'', ''roqqu'', ''bitso'']"

datatype property = Compiled string | ObjectFunction | NotCallable

definition templates :: "string \<Rightarrow> property" where
  "templates templateName =
     (if templateName \<in> set provider_keys then Compiled templateName
      else if templateName = ''constructor'' then ObjectFunction
      else NotCallable)"

text \<open>
  The context object given to the template, and the \<open>html\<close> of the mail: the text a compiled
  template renders from the context, or the context object itself.
\<close>

type_synonym ctx = "(string \<times> string option) list"

datatype html = Rendered string ctx | Object ctx

record mail =
  mail_from :: string
  mail_to :: "string option"
  mail_subject :: string
  mail_html :: html

definition template_context :: "clock \<Rightarrow> send_body \<Rightarrow> ctx" where
  "template_context clk b =
     [(''amount'', Some (js_string (amount b) @ '' '' @ js_string (coin b))),
      (''network'', network b),
      (''walletAddress'', walletAddress b),
      (''date'', Some (dateTime clk)),
      (''prettyDate'', Some (prettyFormat clk)),
      (''localcurrency'', localcurrency b),
      (''transaction_fee'', transaction_fee b),
      (''cashapp_tag'', cashapp_tag b),
      (''transaction_id'', transaction_id b),
      (''senderName'', senderName b),
      (''recipient_name'', recipient_name b),
      (''warning'', if warning b then message b else None)]"

text \<open>
  \<open>new TransactionEmail({...}).save()\<close>: the five fields are required, and an empty string
  does not satisfy \<open>required\<close>.
\<close>

definition save_transaction ::
  "transaction list \<Rightarrow> clock \<Rightarrow> send_body \<Rightarrow> failure + transaction list" where
  "save_transaction txs clk b =
     (let amt = js_string (amount b) @ '' '' @ js_string (coin b) in
      if falsy (wallet b) \<or> amt = [] \<or> falsy (email b) \<or> date clk = [] \<or> time clk = []
      then Inl ValidationError
      else Inr (txs @ [\<lparr>tx_wallet = js_string (wallet b), tx_amount = amt,
                         tx_email = js_string (email b), tx_date = date clk,
                         tx_time = time clk, tx_status = ''Sent''\<rparr>]))"

definition confirmation_mail :: "string option \<Rightarrow> send_body \<Rightarrow> html \<Rightarrow> mail" where
  "confirmation_mail gmail_user b h =
     \<lparr>mail_from = [CHR 0x22] @ js_string (wallet b) @ [CHR 0x22] @ '' <'' @ js_string gmail_user @ ''>'',
      mail_to = email b,
      mail_subject = js_string (wallet b) @ '' Transaction Confirmation'',
      mail_html = h\<rparr>"

text \<open>
  \<open>transporter.sendMail\<close> is the external relay: \<open>sendMail m = None\<close> when it accepts the
  mail, \<open>Some err\<close> when it rejects with error \<open>err\<close>.
\<close>

definition dispatch ::
  "(mail \<Rightarrow> failure option) \<Rightarrow> mail \<Rightarrow> transaction list \<Rightarrow> response \<times> transaction list" where
  "dispatch sendMail m txs =
     (case sendMail m of
        Some err \<Rightarrow> (Response 500 (JObj [(''message'', JErr err)]), txs)
      | None \<Rightarrow> (reply 200 ''Email sent successfully'', txs))"

definition post_send_email ::
  "string option \<Rightarrow> (mail \<Rightarrow> failure option) \<Rightarrow> clock \<Rightarrow> transaction list \<Rightarrow> send_body
     \<Rightarrow> response \<times> transaction list" where
  "post_send_email gmail_user sendMail clk txs b =
     (case save_transaction txs clk b of
        Inl err \<Rightarrow> (Response 500 (JObj [(''message'', JErr err)]), txs)
      | Inr txs1 \<Rightarrow>
          let templateName = toLowerCase (js_string (wallet b)) in
          (case templates templateName of
             NotCallable \<Rightarrow> (Response 500 (JObj [(''message'', JErr TypeError)]), txs1)
           | Compiled n \<Rightarrow>
               dispatch sendMail
                 (confirmation_mail gmail_user b (Rendered n (template_context clk b))) txs1
           | ObjectFunction \<Rightarrow>
               dispatch sendMail
                 (confirmation_mail gmail_user b (Object (template_context clk b))) txs1))"

section \<open>Concrete requests and stores\<close>

text \<open>
  Inputs on which the handlers are run below: a configuration, the registrations of a first
  and a second user and the stores they produce, the tokens and headers of these users,
  a course and a lesson, and a notification request with its clock and relay.
\<close>

definition cfg0 :: config where
  "cfg0 = \<lparr>JWT_SECRET = ''access-secret'', JWT_REFRESH_SECRET = ''refresh-secret'',
           JWT_ACCESS_EXPIRES_IN = None, JWT_REFRESH_EXPIRES_IN = None\<rparr>"

definition first_body :: register_body where
  "first_body = \<lparr>reg_name = Some ''First'', reg_email = Some ''first@x.com'',
                 reg_password = Some ''password1''\<rparr>"

definition second_body :: register_body where
  "second_body = \<lparr>reg_name = Some ''Second'', reg_email = Some ''second@x.com'',
                  reg_password = Some ''password2''\<rparr>"

definition first_user :: user where
  "first_user = \<lparr>user_id = 0, user_name = ''First'', user_email = ''first@x.com'',
      user_password = Bcrypt 10 ''password1'', user_role = ''admin'', createdAt = 0,
      refreshTokens = [Jwt \<lparr>userId = 0, role_claim = None\<rparr> ''refresh-secret'' 604800]\<rparr>"

definition second_user :: user where
  "second_user = \<lparr>user_id = 1, user_name = ''Second'', user_email = ''second@x.com'',
      user_password = Bcrypt 10 ''password2'', user_role = ''student'', createdAt = 1,
      refreshTokens = [Jwt \<lparr>userId = 1, role_claim = None\<rparr> ''refresh-secret'' 604801]\<rparr>"

definition db_one :: db where
  "db_one = \<lparr>Users = [first_user], Courses = [], Lessons = [], Assignments = [], next_oid = 1\<rparr>"

definition db_two :: db where
  "db_two = \<lparr>Users = [first_user, second_user], Courses = [], Lessons = [], Assignments = [],
             next_oid = 2\<rparr>"

text \<open>
  The document \<open>new User({ name, email, password: hashedPassword, role })\<close> that a
  registration request which passes the checks stores, and the roles of \<open>n\<close> users created
  one after the other, the first of them in an empty collection or not.
\<close>

definition registered_user :: "nat \<Rightarrow> db \<Rightarrow> register_body \<Rightarrow> user" where
  "registered_user now d b =
     \<lparr>user_id = next_oid d, user_name = js_string (reg_name b),
      user_email = js_string (reg_email b),
      user_password = bcrypt_hash (js_string (reg_password b)) 10,
      user_role = (if length (Users d) = 0 then ''admin'' else ''student''),
      createdAt = now, refreshTokens = []\<rparr>"

definition expected_roles :: "bool \<Rightarrow> nat \<Rightarrow> string list" where
  "expected_roles first n =
     (if first then (case n of 0 \<Rightarrow> [] | Suc m \<Rightarrow> ''admin'' # replicate m ''student'')
      else replicate n ''student'')"

text \<open>Headers with a bearer token and an email, without the role header.\<close>

definition bearer_headers :: "token \<Rightarrow> string option \<Rightarrow> headers" where
  "bearer_headers t e = \<lparr>authorization = Some [Text ''Bearer'', t], hdr_email = e, hdr_role = None\<rparr>"

definition first_access :: token where
  "first_access = Jwt \<lparr>userId = 0, role_claim = Some ''admin''\<rparr> ''access-secret'' 900"

definition db_logged_out :: db where
  "db_logged_out = db_one\<lparr>Users := [first_user\<lparr>refreshTokens := []\<rparr>]\<rparr>"

definition first_login :: login_body where
  "first_login = \<lparr>login_email = Some ''first@x.com'', login_password = Str ''password1''\<rparr>"

text \<open>
  The first user logs in at time 10 (\<open>db_relogged\<close>); then the refresh token of the first
  session is removed (\<open>db_revoked\<close>), or all of them (\<open>db_logged_out\<close>).
\<close>

definition second_refresh :: token where
  "second_refresh = Jwt \<lparr>userId = 0, role_claim = None\<rparr> ''refresh-secret'' 604810"

definition first_refresh :: token where
  "first_refresh = Jwt \<lparr>userId = 0, role_claim = None\<rparr> ''refresh-secret'' 604800"

definition db_relogged :: db where
  "db_relogged = db_one\<lparr>Users := [first_user\<lparr>refreshTokens := [first_refresh, second_refresh]\<rparr>]\<rparr>"

definition db_revoked :: db where
  "db_revoked = db_one\<lparr>Users := [first_user\<lparr>refreshTokens := [second_refresh]\<rparr>]\<rparr>"

text \<open>The second user, a student, sending the header \<open>role: admin\<close>.\<close>

definition student_access :: token where
  "student_access = Jwt \<lparr>userId = 1, role_claim = Some ''student''\<rparr> ''access-secret'' 901"

definition student_headers :: headers where
  "student_headers =
     \<lparr>authorization = Some [Text ''Bearer'', student_access],
      hdr_email = Some ''second@x.com'', hdr_role = Some ''admin''\<rparr>"

definition algebra_body :: course_body where
  "algebra_body = \<lparr>body_name = Some ''Algebra'', body_code = Some ''ALG1''\<rparr>"

definition algebra :: course where
  "algebra = \<lparr>course_id = 2, course_name = ''Algebra'', course_code = ''ALG1'',
              course_lessons = [], course_assignments = [], createdBy = 1\<rparr>"

definition geometry :: course where
  "geometry = \<lparr>course_id = 2, course_name = ''Geometry'', course_code = ''GEO1'',
               course_lessons = [], course_assignments = [], createdBy = 0\<rparr>"

definition db_course :: db where
  "db_course = db_two\<lparr>Courses := [geometry], next_oid := 3\<rparr>"

definition angles_body :: lesson_body where
  "angles_body = \<lparr>body_title = Some ''Angles'', body_youtubeLink = Some ''https://youtu.be/a''\<rparr>"

definition angles :: lesson where
  "angles = \<lparr>lesson_id = 3, lesson_title = ''Angles'', youtubeLink = ''https://youtu.be/a'',
             lesson_course = 2\<rparr>"

text \<open>A notification request, the strings of the clock, and a relay that accepts or rejects.\<close>

definition binance_body :: send_body where
  "binance_body =
     \<lparr>wallet = Some ''Binance'', amount = Some ''0.5'', email = Some ''a@b.com'',
      coin = Some ''BTC'', network = None, walletAddress = None, message = None,
      warning = False, localcurrency = None, cashapp_tag = None, transaction_fee = None,
      transaction_id = None, recipient_name = None, senderName = None\<rparr>"

definition clock0 :: clock where
  "clock0 = \<lparr>date = ''Aug 18, 2025'', time = ''12:59 PM'', dateTime = ''2025-08-18 12:59:00'',
             prettyFormat = ''Mon, Aug 18 2025 at 12:59 PM''\<rparr>"

definition relay_up :: "mail \<Rightarrow> failure option" where
  "relay_up m = None"

definition relay_down :: "mail \<Rightarrow> failure option" where
  "relay_down m = Some (MailError ''connection refused'')"

definition binance_record :: transaction where
  "binance_record =
     \<lparr>tx_wallet = ''Binance'', tx_amount = ''0.5 BTC'', tx_email = ''a@b.com'',
      tx_date = ''Aug 18, 2025'', tx_time = ''12:59 PM'', tx_status = ''Sent''\<rparr>"

text \<open>
  The tokens that the two \<open>jwt.sign\<close> calls of a handler return for a user when the secret
  is configured, and the secret a token is signed with.
\<close>

definition access_jwt :: "config \<Rightarrow> nat \<Rightarrow> user \<Rightarrow> token" where
  "access_jwt cfg now u =
     Jwt \<lparr>userId = user_id u, role_claim = Some (user_role u)\<rparr>
       (JWT_SECRET cfg) (now + access_expiresIn cfg)"

definition refresh_jwt :: "config \<Rightarrow> nat \<Rightarrow> user \<Rightarrow> token" where
  "refresh_jwt cfg now u =
     Jwt \<lparr>userId = user_id u, role_claim = None\<rparr>
       (JWT_REFRESH_SECRET cfg) (now + refresh_expiresIn cfg)"

fun signing_secret :: "token \<Rightarrow> string" where
  "signing_secret (Jwt p k e) = k"
| "signing_secret (Text s) = []"

text \<open>
  An environment without \<open>JWT_SECRET\<close>, an environment that gives the two secrets the same
  value, and a login request whose password is the JSON number 12345678.
\<close>

definition cfg_unset :: config where
  "cfg_unset = \<lparr>JWT_SECRET = [], JWT_REFRESH_SECRET = ''refresh-secret'',
                JWT_ACCESS_EXPIRES_IN = None, JWT_REFRESH_EXPIRES_IN = None\<rparr>"

definition cfg_shared :: config where
  "cfg_shared = \<lparr>JWT_SECRET = ''shared-secret'', JWT_REFRESH_SECRET = ''shared-secret'',
                 JWT_ACCESS_EXPIRES_IN = None, JWT_REFRESH_EXPIRES_IN = None\<rparr>"

definition number_login :: "string \<Rightarrow> login_body" where
  "number_login e = \<lparr>login_email = Some e, login_password = Num 12345678\<rparr>"

text \<open>
  An update of course 2 (\<open>PUT /api/courses/2\<close>) that sets its lesson list to \<open>[3]\<close>, the id the
  next document receives, and the store after this update.
\<close>

definition plant_update :: course_update where
  "plant_update = \<lparr>set_name = None, set_code = None, set_lessons = Some [3],
                   set_assignments = None, set_createdBy = None\<rparr>"

definition db_planted :: db where
  "db_planted = db_course\<lparr>Courses := [geometry\<lparr>course_lessons := [3]\<rparr>]\<rparr>"

section \<open>Properties of the authentication middleware\<close>

lemmas scen = cfg0_def first_body_def second_body_def first_user_def second_user_def db_one_def db_two_def empty_db_def

lemmas reg_defs = post_register_def reply_def reply_error_def findOne_email_def insert_user_def
  push_refreshToken_def access_token_def refresh_token_def jwt_sign_def access_expiresIn_def
  refresh_expiresIn_def bcrypt_hash_def user_view_def Let_def

lemma not_falsy_js_string: "\<not> falsy x \<Longrightarrow> x = Some (js_string x) \<and> js_string x \<noteq> []"
  by (cases x) auto

lemma auth_catch_not_invalidated:
  "auth_catch e \<noteq> reject 403 ''Token invalidated'' ''TOKEN_INVALIDATED''"
  by (cases e) (simp_all add: reject_def)

lemma authenticateToken_checked:
  assumes "bearer (authorization h) = Some tok" "tok \<noteq> Text []" "hdr_email h = Some em" "em \<noteq> []"
  shows "authenticateToken cfg now d h =
     (case jwt_verify tok (JWT_SECRET cfg) now of
        Inl err \<Rightarrow> Halt (auth_catch err)
      | Inr decoded \<Rightarrow>
          (case findOne_id_email d (userId decoded) em of
             None \<Rightarrow> Halt (reject 403 ''Invalid credentials'' ''INVALID_CREDENTIALS'')
           | Some usr \<Rightarrow>
               if list_ex (refresh_matches cfg now decoded) (refreshTokens usr)
               then Next usr
               else Halt (reject 403 ''Token invalidated'' ''TOKEN_INVALIDATED'')))"
  using assms by (simp add: authenticateToken_def split: sum.splits option.splits)

lemma authenticateToken_scan_reached:
  assumes "authenticateToken cfg now d h = Next usr \<or>
       authenticateToken cfg now d h = Halt (reject 403 ''Token invalidated'' ''TOKEN_INVALIDATED'')"
  shows "\<exists>t e p. bearer (authorization h) = Some t \<and> t \<noteq> Text [] \<and> hdr_email h = Some e \<and> e \<noteq> []
           \<and> jwt_verify t (JWT_SECRET cfg) now = Inr p
           \<and> findOne_id_email d (userId p) e \<noteq> None"
proof (cases "bearer (authorization h)")
  case None
  with assms show ?thesis by (auto simp: authenticateToken_def reject_def)
next
  case (Some t)
  show ?thesis
  proof (cases "t = Text [] \<or> falsy (hdr_email h)")
    case True
    with assms Some show ?thesis by (auto simp: authenticateToken_def reject_def split: if_splits)
  next
    case False
    then have t: "t \<noteq> Text []" and e: "hdr_email h = Some (js_string (hdr_email h))"
      "js_string (hdr_email h) \<noteq> []"
      using not_falsy_js_string by auto
    note eq = authenticateToken_checked [OF Some t e, of cfg now d]
    show ?thesis
    proof (cases "jwt_verify t (JWT_SECRET cfg) now")
      case (Inl err)
      with assms eq show ?thesis by (auto simp: auth_catch_not_invalidated)
    next
      case (Inr p)
      with assms eq have "findOne_id_email d (userId p) (js_string (hdr_email h)) \<noteq> None"
        by (auto simp: reject_def split: option.splits)
      with Some t e Inr show ?thesis by blast
    qed
  qed
qed

text \<open>
  Claim C1. The middleware checks the failure modes in a fixed order. A request with no token
  in the authorization header is answered 401 \<open>TOKEN_MISSING\<close> whatever the other headers
  are; otherwise a request without the email header is answered 401 \<open>EMAIL_MISSING\<close>;
  otherwise a token that fails verification is answered 403 \<open>INVALID_TOKEN\<close>, or 401
  \<open>TOKEN_EXPIRED\<close> when it has expired; otherwise, when the decoded user id and the email
  select no stored user, the answer is 403 \<open>INVALID_CREDENTIALS\<close>. Only a request that
  passes all of these checks reaches the scan of the refresh tokens, and when the scan
  succeeds the stored user is attached to the request and the next handler runs.
\<close>

theorem authenticateToken_order:
  "(bearer (authorization h) = None \<or> bearer (authorization h) = Some (Text []) \<longrightarrow>
      authenticateToken cfg now d h =
        Halt (reject 401 ''Authorization token required'' ''TOKEN_MISSING''))
   \<and> (bearer (authorization h) = Some tok \<and> tok \<noteq> Text [] \<longrightarrow>
        (falsy (hdr_email h) \<longrightarrow>
           authenticateToken cfg now d h = Halt (reject 401 ''User email required'' ''EMAIL_MISSING''))
      \<and> (hdr_email h = Some em \<and> em \<noteq> [] \<longrightarrow>
           (jwt_verify tok (JWT_SECRET cfg) now = Inl JsonWebTokenError \<longrightarrow>
              authenticateToken cfg now d h = Halt (reject 403 ''Invalid token'' ''INVALID_TOKEN''))
         \<and> (jwt_verify tok (JWT_SECRET cfg) now = Inl TokenExpiredError \<longrightarrow>
              authenticateToken cfg now d h = Halt (reject 401 ''Token expired'' ''TOKEN_EXPIRED''))
         \<and> (jwt_verify tok (JWT_SECRET cfg) now = Inr decoded \<longrightarrow>
              (findOne_id_email d (userId decoded) em = None \<longrightarrow>
                 authenticateToken cfg now d h =
                   Halt (reject 403 ''Invalid credentials'' ''INVALID_CREDENTIALS''))
            \<and> (findOne_id_email d (userId decoded) em = Some usr \<longrightarrow>
                 (\<not> list_ex (refresh_matches cfg now decoded) (refreshTokens usr) \<longrightarrow>
                    authenticateToken cfg now d h =
                      Halt (reject 403 ''Token invalidated'' ''TOKEN_INVALIDATED''))
               \<and> (list_ex (refresh_matches cfg now decoded) (refreshTokens usr) \<longrightarrow>
                    authenticateToken cfg now d h = Next usr)))))
   \<and> (authenticateToken cfg now d h = Next usr \<or>
       authenticateToken cfg now d h = Halt (reject 403 ''Token invalidated'' ''TOKEN_INVALIDATED'') \<longrightarrow>
        (\<exists>t e p. bearer (authorization h) = Some t \<and> t \<noteq> Text [] \<and> hdr_email h = Some e \<and> e \<noteq> []
           \<and> jwt_verify t (JWT_SECRET cfg) now = Inr p
           \<and> findOne_id_email d (userId p) e \<noteq> None))"
proof (intro conjI impI)
  assume "bearer (authorization h) = None \<or> bearer (authorization h) = Some (Text [])"
  then show "authenticateToken cfg now d h =
        Halt (reject 401 ''Authorization token required'' ''TOKEN_MISSING'')"
    by (auto simp: authenticateToken_def)
next
  assume "bearer (authorization h) = Some tok \<and> tok \<noteq> Text []" "falsy (hdr_email h)"
  then show "authenticateToken cfg now d h = Halt (reject 401 ''User email required'' ''EMAIL_MISSING'')"
    by (simp add: authenticateToken_def)
next
  assume a: "bearer (authorization h) = Some tok \<and> tok \<noteq> Text []" "hdr_email h = Some em \<and> em \<noteq> []"
  then have eq: "authenticateToken cfg now d h =
     (case jwt_verify tok (JWT_SECRET cfg) now of
        Inl err \<Rightarrow> Halt (auth_catch err)
      | Inr decoded \<Rightarrow>
          (case findOne_id_email d (userId decoded) em of
             None \<Rightarrow> Halt (reject 403 ''Invalid credentials'' ''INVALID_CREDENTIALS'')
           | Some usr \<Rightarrow>
               if list_ex (refresh_matches cfg now decoded) (refreshTokens usr)
               then Next usr
               else Halt (reject 403 ''Token invalidated'' ''TOKEN_INVALIDATED'')))"
    using authenticateToken_checked by blast
  { assume "jwt_verify tok (JWT_SECRET cfg) now = Inl JsonWebTokenError"
    with eq show "authenticateToken cfg now d h = Halt (reject 403 ''Invalid token'' ''INVALID_TOKEN'')"
      by simp }
  { assume "jwt_verify tok (JWT_SECRET cfg) now = Inl TokenExpiredError"
    with eq show "authenticateToken cfg now d h = Halt (reject 401 ''Token expired'' ''TOKEN_EXPIRED'')"
      by simp }
  { assume v: "jwt_verify tok (JWT_SECRET cfg) now = Inr decoded"
    { assume "findOne_id_email d (userId decoded) em = None"
      with eq v show "authenticateToken cfg now d h =
                   Halt (reject 403 ''Invalid credentials'' ''INVALID_CREDENTIALS'')"
        by simp }
    { assume f: "findOne_id_email d (userId decoded) em = Some usr"
      { assume "\<not> list_ex (refresh_matches cfg now decoded) (refreshTokens usr)"
        with eq v f show "authenticateToken cfg now d h =
                      Halt (reject 403 ''Token invalidated'' ''TOKEN_INVALIDATED'')"
          by simp }
      { assume "list_ex (refresh_matches cfg now decoded) (refreshTokens usr)"
        with eq v f show "authenticateToken cfg now d h = Next usr"
          by simp } } }
next
  assume "authenticateToken cfg now d h = Next usr \<or>
       authenticateToken cfg now d h = Halt (reject 403 ''Token invalidated'' ''TOKEN_INVALIDATED'')"
  then show "\<exists>t e p. bearer (authorization h) = Some t \<and> t \<noteq> Text [] \<and> hdr_email h = Some e \<and> e \<noteq> []
           \<and> jwt_verify t (JWT_SECRET cfg) now = Inr p
           \<and> findOne_id_email d (userId p) e \<noteq> None"
    by (rule authenticateToken_scan_reached)
qed

lemmas run_defs = scen bearer_headers_def first_access_def db_logged_out_def
  findOne_id_email_def refresh_matches_def

theorem authenticateToken_order_witness:
  "authenticateToken cfg0 20 db_one
      \<lparr>authorization = None, hdr_email = Some ''first@x.com'', hdr_role = None\<rparr> =
      Halt (reject 401 ''Authorization token required'' ''TOKEN_MISSING'')
   \<and> authenticateToken cfg0 20 db_one (bearer_headers first_access None) =
      Halt (reject 401 ''User email required'' ''EMAIL_MISSING'')
   \<and> authenticateToken cfg0 20 db_one (bearer_headers (Text ''garbage'') (Some ''first@x.com'')) =
      Halt (reject 403 ''Invalid token'' ''INVALID_TOKEN'')
   \<and> authenticateToken cfg0 900 db_one (bearer_headers first_access (Some ''first@x.com'')) =
      Halt (reject 401 ''Token expired'' ''TOKEN_EXPIRED'')
   \<and> authenticateToken cfg0 20 db_one (bearer_headers first_access (Some ''second@x.com'')) =
      Halt (reject 403 ''Invalid credentials'' ''INVALID_CREDENTIALS'')
   \<and> authenticateToken cfg0 20 db_logged_out (bearer_headers first_access (Some ''first@x.com'')) =
      Halt (reject 403 ''Token invalidated'' ''TOKEN_INVALIDATED'')
   \<and> authenticateToken cfg0 20 db_one (bearer_headers first_access (Some ''first@x.com'')) =
      Next first_user"
proof -
  let ?p = "\<lparr>userId = 0, role_claim = Some ''admin''\<rparr>"
  have 1: "authenticateToken cfg0 20 db_one
      \<lparr>authorization = None, hdr_email = Some ''first@x.com'', hdr_role = None\<rparr> =
      Halt (reject 401 ''Authorization token required'' ''TOKEN_MISSING'')"
    using authenticateToken_order [where cfg = cfg0 and now = 20 and d = db_one and
        h = "\<lparr>authorization = None, hdr_email = Some ''first@x.com'', hdr_role = None\<rparr>"]
    by simp
  have 2: "authenticateToken cfg0 20 db_one (bearer_headers first_access None) =
      Halt (reject 401 ''User email required'' ''EMAIL_MISSING'')"
    using authenticateToken_order [where cfg = cfg0 and now = 20 and d = db_one and
        h = "bearer_headers first_access None" and tok = first_access]
    by (simp add: bearer_headers_def first_access_def)
  have 3: "authenticateToken cfg0 20 db_one (bearer_headers (Text ''garbage'') (Some ''first@x.com'')) =
      Halt (reject 403 ''Invalid token'' ''INVALID_TOKEN'')"
    using authenticateToken_order [where cfg = cfg0 and now = 20 and d = db_one and
        h = "bearer_headers (Text ''garbage'') (Some ''first@x.com'')" and tok = "Text ''garbage''"
        and em = "''first@x.com''"]
    by (simp add: bearer_headers_def)
  have 4: "authenticateToken cfg0 900 db_one (bearer_headers first_access (Some ''first@x.com'')) =
      Halt (reject 401 ''Token expired'' ''TOKEN_EXPIRED'')"
    using authenticateToken_order [where cfg = cfg0 and now = 900 and d = db_one and
        h = "bearer_headers first_access (Some ''first@x.com'')" and tok = first_access
        and em = "''first@x.com''"]
    by (simp add: bearer_headers_def first_access_def cfg0_def)
  have 5: "authenticateToken cfg0 20 db_one (bearer_headers first_access (Some ''second@x.com'')) =
      Halt (reject 403 ''Invalid credentials'' ''INVALID_CREDENTIALS'')"
    using authenticateToken_order [where cfg = cfg0 and now = 20 and d = db_one and
        h = "bearer_headers first_access (Some ''second@x.com'')" and tok = first_access
        and em = "''second@x.com''" and decoded = ?p]
    by (simp add: run_defs)
  have 6: "authenticateToken cfg0 20 db_logged_out (bearer_headers first_access (Some ''first@x.com'')) =
      Halt (reject 403 ''Token invalidated'' ''TOKEN_INVALIDATED'')"
    using authenticateToken_order [where cfg = cfg0 and now = 20 and d = db_logged_out and
        h = "bearer_headers first_access (Some ''first@x.com'')" and tok = first_access
        and em = "''first@x.com''" and decoded = ?p and usr = "first_user\<lparr>refreshTokens := []\<rparr>"]
    by (simp add: run_defs)
  have 7: "authenticateToken cfg0 20 db_one (bearer_headers first_access (Some ''first@x.com'')) =
      Next first_user"
    using authenticateToken_order [where cfg = cfg0 and now = 20 and d = db_one and
        h = "bearer_headers first_access (Some ''first@x.com'')" and tok = first_access
        and em = "''first@x.com''" and decoded = ?p and usr = first_user]
    by (simp add: run_defs)
  from 1 2 3 4 5 6 7 show ?thesis by blast
qed

section \<open>Properties of registration and login\<close>

lemma register_first:
  "post_register cfg0 0 empty_db first_body =
    (Response 201
      (JObj [(''message'', JStr ''User registered successfully''),
             (''role'', JStr ''admin''),
             (''token'', JTok (Jwt \<lparr>userId = 0, role_claim = Some ''admin''\<rparr> ''access-secret'' 900)),
             (''refreshToken'', JTok (Jwt \<lparr>userId = 0, role_claim = None\<rparr> ''refresh-secret'' 604800)),
             (''user'', JObj [(''id'', JOid 0), (''name'', JStr ''First''),
                              (''email'', JStr ''first@x.com''), (''role'', JStr ''admin'')])]),
     db_one)"
  by (simp add: scen reg_defs)

lemma register_second:
  "post_register cfg0 1 db_one second_body =
    (Response 201
      (JObj [(''message'', JStr ''User registered successfully''),
             (''role'', JStr ''student''),
             (''token'', JTok (Jwt \<lparr>userId = 1, role_claim = Some ''student''\<rparr> ''access-secret'' 901)),
             (''refreshToken'', JTok (Jwt \<lparr>userId = 1, role_claim = None\<rparr> ''refresh-secret'' 604801)),
             (''user'', JObj [(''id'', JOid 1), (''name'', JStr ''Second''),
                              (''email'', JStr ''second@x.com''), (''role'', JStr ''student'')])]),
     db_two)"
  by (simp add: scen reg_defs)

lemma access_token_cases:
  "access_token cfg now u =
     (if JWT_SECRET cfg = [] then Inl SecretMissing else Inr (access_jwt cfg now u))"
  by (simp add: access_token_def access_jwt_def jwt_sign_def)

lemma refresh_token_cases:
  "refresh_token cfg now u =
     (if JWT_REFRESH_SECRET cfg = [] then Inl SecretMissing else Inr (refresh_jwt cfg now u))"
  by (simp add: refresh_token_def refresh_jwt_def jwt_sign_def)

lemma insert_user_new:
  "findOne_email d (user_email u) = None \<Longrightarrow>
     insert_user (d\<lparr>next_oid := n\<rparr>) u = Inr (d\<lparr>next_oid := n, Users := Users d @ [u]\<rparr>)"
  by (auto simp: insert_user_def findOne_email_def find_None_iff list_ex_iff)

lemma post_register_cases:
  "post_register cfg now d b =
     (if falsy (reg_name b) \<or> falsy (reg_email b) \<or> falsy (reg_password b)
      then (reply 400 ''All fields are required'', d)
      else if length (js_string (reg_password b)) < 8
      then (reply 400 ''Password must be at least 8 characters'', d)
      else if findOne_email d (js_string (reg_email b)) \<noteq> None
      then (reply 400 ''Email already in use'', d)
      else if JWT_SECRET cfg = [] \<or> JWT_REFRESH_SECRET cfg = []
      then (reply_error 500 ''Registration failed'' SecretMissing,
            d\<lparr>next_oid := Suc (next_oid d), Users := Users d @ [registered_user now d b]\<rparr>)
      else
        (Response 201
           (JObj [(''message'', JStr ''User registered successfully''),
                  (''role'', JStr (user_role (registered_user now d b))),
                  (''token'', JTok (access_jwt cfg now (registered_user now d b))),
                  (''refreshToken'', JTok (refresh_jwt cfg now (registered_user now d b))),
                  (''user'', user_view (registered_user now d b))]),
         push_refreshToken
           (d\<lparr>next_oid := Suc (next_oid d), Users := Users d @ [registered_user now d b]\<rparr>)
           (next_oid d) (refresh_jwt cfg now (registered_user now d b))))"
proof -
  have u: "user_email (registered_user now d b) = js_string (reg_email b)"
    "user_id (registered_user now d b) = next_oid d"
    by (simp_all add: registered_user_def)
  show ?thesis
  proof (cases "findOne_email d (js_string (reg_email b))")
    case (Some a)
    then show ?thesis by (simp add: post_register_def Let_def)
  next
    case None
    then have ins: "insert_user (d\<lparr>next_oid := Suc (next_oid d)\<rparr>) (registered_user now d b) =
       Inr (d\<lparr>next_oid := Suc (next_oid d), Users := Users d @ [registered_user now d b]\<rparr>)"
      using insert_user_new [of d "registered_user now d b"] u by simp
    with None show ?thesis
      by (cases "Users d = []")
         (simp_all add: post_register_def Let_def registered_user_def access_token_cases
            refresh_token_cases)
  qed
qed

lemma push_refreshToken_roles [simp]:
  "map user_role (Users (push_refreshToken d i t)) = map user_role (Users d)"
  by (simp add: push_refreshToken_def comp_def if_distrib [of user_role] cong: if_cong)

lemma post_register_roles:
  assumes "post_register cfg now d b = (r, d')"
  shows "(status r = 400 \<and> d' = d)
       \<or> (map user_role (Users d') =
            map user_role (Users d) @ [if Users d = [] then ''admin'' else ''student''] \<and>
          (if JWT_SECRET cfg = [] \<or> JWT_REFRESH_SECRET cfg = [] then status r = 500
           else status r = 201 \<and>
                field ''role'' (body r) =
                  Some (JStr (if Users d = [] then ''admin'' else ''student''))))"
  using assms unfolding post_register_cases
  by (auto simp: reply_def reply_error_def registered_user_def split: if_splits)

lemma expected_roles_step:
  "expected_roles first (Suc n) =
     (if first then ''admin'' else ''student'') # expected_roles False n"
  by (simp add: expected_roles_def)

lemma register_all_roles:
  "register_all cfg d reqs = (rs, d') \<Longrightarrow>
     map user_role (Users d') =
       map user_role (Users d) @
         expected_roles (Users d = []) (length (filter (\<lambda>r. status r \<noteq> 400) rs))
     \<and> (if JWT_SECRET cfg = [] \<or> JWT_REFRESH_SECRET cfg = []
        then filter (\<lambda>r. status r = 201) rs = []
        else map (\<lambda>r. field ''role'' (body r)) (filter (\<lambda>r. status r = 201) rs) =
             map (\<lambda>x. Some (JStr x))
               (expected_roles (Users d = []) (length (filter (\<lambda>r. status r \<noteq> 400) rs))))"
proof (induction reqs arbitrary: d rs d')
  case Nil
  then show ?case by (simp add: expected_roles_def)
next
  case (Cons q reqs)
  obtain now b where q: "q = (now, b)" by (cases q)
  obtain r d1 where step: "post_register cfg now d b = (r, d1)" by (cases "post_register cfg now d b")
  obtain rs1 d2 where rest: "register_all cfg d1 reqs = (rs1, d2)" by (cases "register_all cfg d1 reqs")
  from Cons.prems q step rest have rs: "rs = r # rs1" and d': "d' = d2" by simp_all
  note IH = Cons.IH [OF rest]
  from post_register_roles [OF step] show ?case
  proof
    assume "status r = 400 \<and> d1 = d"
    with IH show ?thesis unfolding rs d' by simp
  next
    assume ok: "map user_role (Users d1) =
            map user_role (Users d) @ [if Users d = [] then ''admin'' else ''student''] \<and>
          (if JWT_SECRET cfg = [] \<or> JWT_REFRESH_SECRET cfg = [] then status r = 500
           else status r = 201 \<and>
                field ''role'' (body r) =
                  Some (JStr (if Users d = [] then ''admin'' else ''student'')))"
    then have ne: "Users d1 \<noteq> []" by (metis Nil_is_map_conv snoc_eq_iff_butlast)
    from ok have st: "status r \<noteq> 400" by (auto split: if_splits)
    show ?thesis
    proof (cases "JWT_SECRET cfg = [] \<or> JWT_REFRESH_SECRET cfg = []")
      case True
      with IH ok ne st show ?thesis
        unfolding rs d' by (simp add: expected_roles_step)
    next
      case False
      with IH ok ne st show ?thesis
        unfolding rs d' by (simp add: expected_roles_step)
    qed
  qed
qed

text \<open>
  Claim C4. Starting from a store without users, the users that a sequence of registration
  requests leaves in the store have the roles admin, student, student, ... in the order of
  their creation: the first user registered, and only the first, is an admin. When both
  signing secrets are configured, the registrations that succeed (status 201) are exactly
  those that store a user, and each returns in its response the role stored for the user it
  created. When a secret is not configured no registration succeeds.
\<close>

theorem first_registrant_admin:
  assumes "Users d = []" and "register_all cfg d reqs = (rs, d')"
  shows "map user_role (Users d') =
           (case Users d' of [] \<Rightarrow> [] | u # us \<Rightarrow> ''admin'' # replicate (length us) ''student'')
       \<and> (JWT_SECRET cfg \<noteq> [] \<and> JWT_REFRESH_SECRET cfg \<noteq> [] \<longrightarrow>
            map (\<lambda>r. field ''role'' (body r)) (filter (\<lambda>r. status r = 201) rs) =
            map (\<lambda>u. Some (JStr (user_role u))) (Users d'))
       \<and> (JWT_SECRET cfg = [] \<or> JWT_REFRESH_SECRET cfg = [] \<longrightarrow>
            filter (\<lambda>r. status r = 201) rs = [])"
proof -
  let ?k = "length (filter (\<lambda>r. status r \<noteq> 400) rs)"
  from register_all_roles [OF assms(2)] assms(1)
  have r: "map user_role (Users d') = expected_roles True ?k"
    and f: "if JWT_SECRET cfg = [] \<or> JWT_REFRESH_SECRET cfg = []
        then filter (\<lambda>r. status r = 201) rs = []
        else map (\<lambda>r. field ''role'' (body r)) (filter (\<lambda>r. status r = 201) rs) =
             map (\<lambda>x. Some (JStr x)) (expected_roles True ?k)"
    by simp_all
  have len: "length (expected_roles True ?k) = ?k"
    by (cases ?k) (simp_all add: expected_roles_def)
  then have k: "length (Users d') = ?k"
    using r by (metis length_map)
  have 1: "map user_role (Users d') =
           (case Users d' of [] \<Rightarrow> [] | u # us \<Rightarrow> ''admin'' # replicate (length us) ''student'')"
  proof (cases "Users d'")
    case Nil
    then show ?thesis by simp
  next
    case (Cons u us)
    then have "?k = Suc (length us)" using k by simp
    then have "expected_roles True ?k = ''admin'' # replicate (length us) ''student''"
      by (simp add: expected_roles_def)
    with r Cons show ?thesis by simp
  qed
  have m: "map (\<lambda>u. Some (JStr (user_role u))) (Users d') =
        map (\<lambda>x. Some (JStr x)) (map user_role (Users d'))"
    by (simp add: comp_def)
  have 2: "JWT_SECRET cfg \<noteq> [] \<and> JWT_REFRESH_SECRET cfg \<noteq> [] \<longrightarrow>
            map (\<lambda>r. field ''role'' (body r)) (filter (\<lambda>r. status r = 201) rs) =
            map (\<lambda>u. Some (JStr (user_role u))) (Users d')"
    using f r m by (auto split: if_splits)
  have 3: "JWT_SECRET cfg = [] \<or> JWT_REFRESH_SECRET cfg = [] \<longrightarrow>
            filter (\<lambda>r. status r = 201) rs = []"
    using f by (auto split: if_splits)
  from 1 2 3 show ?thesis by (intro conjI)
qed

lemma register_first_unset:
  "post_register cfg_unset 0 empty_db first_body =
     (reply_error 500 ''Registration failed'' SecretMissing,
      db_one\<lparr>Users := [first_user\<lparr>refreshTokens := []\<rparr>]\<rparr>)"
  by (simp add: scen reg_defs cfg_unset_def)

lemma register_second_unset:
  "post_register cfg_unset 1 (db_one\<lparr>Users := [first_user\<lparr>refreshTokens := []\<rparr>]\<rparr>) second_body =
     (reply_error 500 ''Registration failed'' SecretMissing,
      db_two\<lparr>Users := [first_user\<lparr>refreshTokens := []\<rparr>, second_user\<lparr>refreshTokens := []\<rparr>]\<rparr>)"
  by (simp add: scen reg_defs cfg_unset_def)

theorem first_registrant_admin_witness:
  "Users empty_db = []
   \<and> map status (fst (register_all cfg0 empty_db [(0, first_body), (1, second_body)])) = [201, 201]
   \<and> map user_role (Users (snd (register_all cfg0 empty_db [(0, first_body), (1, second_body)]))) =
       [''admin'', ''student'']
   \<and> map (\<lambda>r. field ''role'' (body r))
         (fst (register_all cfg0 empty_db [(0, first_body), (1, second_body)])) =
       [Some (JStr ''admin''), Some (JStr ''student'')]
   \<and> map status (fst (register_all cfg_unset empty_db [(0, first_body), (1, second_body)])) =
       [500, 500]
   \<and> map user_role
         (Users (snd (register_all cfg_unset empty_db [(0, first_body), (1, second_body)]))) =
       [''admin'', ''student'']"
proof -
  let ?r0 = "fst (post_register cfg0 0 empty_db first_body)"
  let ?r1 = "fst (post_register cfg0 1 db_one second_body)"
  let ?e = "reply_error 500 ''Registration failed'' SecretMissing"
  let ?d2 = "db_two\<lparr>Users := [first_user\<lparr>refreshTokens := []\<rparr>, second_user\<lparr>refreshTokens := []\<rparr>]\<rparr>"
  have e: "Users empty_db = []" by (simp add: empty_db_def)
  have run: "register_all cfg0 empty_db [(0, first_body), (1, second_body)] = ([?r0, ?r1], db_two)"
    by (simp add: register_first register_second del: One_nat_def)
  have run2: "register_all cfg_unset empty_db [(0, first_body), (1, second_body)] = ([?e, ?e], ?d2)"
    by (simp add: register_first_unset register_second_unset del: One_nat_def)
  have st: "status ?r0 = 201" "status ?r1 = 201"
    by (simp_all add: register_first register_second del: One_nat_def)
  then have f: "filter (\<lambda>r. status r = 201) [?r0, ?r1] = [?r0, ?r1]" by simp
  have c: "JWT_SECRET cfg0 \<noteq> [] \<and> JWT_REFRESH_SECRET cfg0 \<noteq> []" by (simp add: cfg0_def)
  from first_registrant_admin [OF e run] c
  have a: "map user_role (Users db_two) = [''admin'', ''student'']"
    and b: "map (\<lambda>r. field ''role'' (body r)) [?r0, ?r1] =
         map (\<lambda>u. Some (JStr (user_role u))) (Users db_two)"
    unfolding f by (simp_all add: db_two_def)
  from first_registrant_admin [OF e run2]
  have a2: "map user_role (Users ?d2) = [''admin'', ''student'']"
    by (simp add: db_two_def)
  have s2: "map status [?e, ?e] = [500, 500]" by (simp add: reply_error_def)
  show ?thesis
    unfolding run run2 using e st a b a2 s2
    by (simp add: db_two_def first_user_def second_user_def del: One_nat_def)
qed

lemma findOne_email_present:
  "list_ex (\<lambda>u. user_email u = e) (Users d) \<Longrightarrow> \<exists>u. findOne_email d e = Some u"
  unfolding findOne_email_def list_ex_iff
  by (cases "find (\<lambda>u. user_email u = e) (Users d)") (auto simp: find_None_iff)

text \<open>
  Claim C6. A registration request is rejected with status 400, and the store is left as it
  was, when a field is missing, when the password has fewer than 8 characters, or when the
  email is that of a stored user. The three checks are applied in this order: a missing
  field wins over a short password, and a short password over a duplicate email.
\<close>

theorem register_rejections:
  "(falsy (reg_name b) \<or> falsy (reg_email b) \<or> falsy (reg_password b) \<longrightarrow>
      post_register cfg now d b = (reply 400 ''All fields are required'', d))
   \<and> (reg_name b = Some n \<and> n \<noteq> [] \<and> reg_email b = Some e \<and> e \<noteq> [] \<and>
       reg_password b = Some p \<and> p \<noteq> [] \<longrightarrow>
        (length p < 8 \<longrightarrow>
           post_register cfg now d b = (reply 400 ''Password must be at least 8 characters'', d))
      \<and> (8 \<le> length p \<and> list_ex (\<lambda>u. user_email u = e) (Users d) \<longrightarrow>
           post_register cfg now d b = (reply 400 ''Email already in use'', d)))"
proof (intro conjI impI)
  assume "falsy (reg_name b) \<or> falsy (reg_email b) \<or> falsy (reg_password b)"
  then show "post_register cfg now d b = (reply 400 ''All fields are required'', d)"
    by (simp add: post_register_def)
next
  assume f: "reg_name b = Some n \<and> n \<noteq> [] \<and> reg_email b = Some e \<and> e \<noteq> [] \<and>
       reg_password b = Some p \<and> p \<noteq> []"
  { assume "length p < 8"
    with f show "post_register cfg now d b = (reply 400 ''Password must be at least 8 characters'', d)"
      by (simp add: post_register_def) }
  { assume a: "8 \<le> length p \<and> list_ex (\<lambda>u. user_email u = e) (Users d)"
    then obtain u where "findOne_email d e = Some u"
      using findOne_email_present by blast
    with f a show "post_register cfg now d b = (reply 400 ''Email already in use'', d)"
      by (simp add: post_register_def) }
qed

theorem register_rejections_witness:
  "post_register cfg0 2 db_one
      \<lparr>reg_name = None, reg_email = Some ''first@x.com'', reg_password = Some ''short''\<rparr> =
      (reply 400 ''All fields are required'', db_one)
   \<and> post_register cfg0 2 db_one
      \<lparr>reg_name = Some ''Again'', reg_email = Some ''first@x.com'', reg_password = Some ''short''\<rparr> =
      (reply 400 ''Password must be at least 8 characters'', db_one)
   \<and> post_register cfg0 2 db_one
      \<lparr>reg_name = Some ''Again'', reg_email = Some ''first@x.com'',
       reg_password = Some ''password3''\<rparr> =
      (reply 400 ''Email already in use'', db_one)"
proof -
  have 1: "post_register cfg0 2 db_one
      \<lparr>reg_name = None, reg_email = Some ''first@x.com'', reg_password = Some ''short''\<rparr> =
      (reply 400 ''All fields are required'', db_one)"
    using register_rejections [where cfg = cfg0 and now = 2 and d = db_one and
        b = "\<lparr>reg_name = None, reg_email = Some ''first@x.com'', reg_password = Some ''short''\<rparr>"]
    by simp
  have 2: "post_register cfg0 2 db_one
      \<lparr>reg_name = Some ''Again'', reg_email = Some ''first@x.com'', reg_password = Some ''short''\<rparr> =
      (reply 400 ''Password must be at least 8 characters'', db_one)"
    using register_rejections [where cfg = cfg0 and now = 2 and d = db_one and
        b = "\<lparr>reg_name = Some ''Again'', reg_email = Some ''first@x.com'',
             reg_password = Some ''short''\<rparr>"
        and n = "''Again''" and e = "''first@x.com''" and p = "''short''"]
    by simp
  have 3: "post_register cfg0 2 db_one
      \<lparr>reg_name = Some ''Again'', reg_email = Some ''first@x.com'',
       reg_password = Some ''password3''\<rparr> =
      (reply 400 ''Email already in use'', db_one)"
    using register_rejections [where cfg = cfg0 and now = 2 and d = db_one and
        b = "\<lparr>reg_name = Some ''Again'', reg_email = Some ''first@x.com'',
             reg_password = Some ''password3''\<rparr>"
        and n = "''Again''" and e = "''first@x.com''" and p = "''password3''"]
    by (simp add: db_one_def first_user_def)
  from 1 2 3 show ?thesis by blast
qed

lemma login_failures_same_for_strings:
  assumes "login_email b1 = Some e1" "e1 \<noteq> []" "\<not> falsy_value (login_password b1)"
    and unknown: "findOne_email d1 e1 = None"
    and "login_email b2 = Some e2" "e2 \<noteq> []" "login_password b2 = Str p2" "p2 \<noteq> []"
    and known: "findOne_email d2 e2 = Some u"
    and wrong: "bcrypt_compare (Str p2) (user_password u) = Inr False"
  shows "post_login cfg1 now1 d1 b1 = (reply 401 ''Invalid email or password'', d1)
       \<and> post_login cfg2 now2 d2 b2 = (reply 401 ''Invalid email or password'', d2)"
  using assms by (simp add: post_login_def)

text \<open>
  Claim C5 states what the handler is written to do, and the handler misses a case. For a
  password that is a string the two failures receive the same 401 response (the lemma
  above). For a JSON number as password, the comparison with the hash of a stored user
  throws and the \<open>catch\<close> block answers 500 ``Login failed'', while for an email that
  matches no user the comparison is never reached and the answer is 401: the two responses
  tell a stored email from an unknown one.
\<close>

theorem number_password_tells_accounts_apart:
  "findOne_email db_one ''first@x.com'' = Some first_user
   \<and> findOne_email db_one ''nobody@x.com'' = None
   \<and> post_login cfg0 10 db_one (number_login ''first@x.com'') =
       (reply_error 500 ''Login failed'' IllegalArguments, db_one)
   \<and> post_login cfg0 10 db_one (number_login ''nobody@x.com'') =
       (reply 401 ''Invalid email or password'', db_one)
   \<and> status (fst (post_login cfg0 10 db_one (number_login ''first@x.com''))) \<noteq>
       status (fst (post_login cfg0 10 db_one (number_login ''nobody@x.com'')))"
proof -
  have 1: "findOne_email db_one ''first@x.com'' = Some first_user"
    "findOne_email db_one ''nobody@x.com'' = None"
    by (simp_all add: findOne_email_def db_one_def first_user_def)
  have 2: "post_login cfg0 10 db_one (number_login ''first@x.com'') =
       (reply_error 500 ''Login failed'' IllegalArguments, db_one)"
    by (simp add: post_login_def number_login_def 1)
  have 3: "post_login cfg0 10 db_one (number_login ''nobody@x.com'') =
       (reply 401 ''Invalid email or password'', db_one)"
    by (simp add: post_login_def number_login_def 1)
  have 4: "status (fst (post_login cfg0 10 db_one (number_login ''first@x.com''))) \<noteq>
       status (fst (post_login cfg0 10 db_one (number_login ''nobody@x.com'')))"
    unfolding 2 3 by (simp add: reply_def reply_error_def)
  show ?thesis by (intro conjI) (rule 1 2 3 4)+
qed

lemma post_register_201:
  assumes "post_register cfg now d b = (r, d')" "status r = 201"
  shows "r = Response 201
           (JObj [(''message'', JStr ''User registered successfully''),
                  (''role'', JStr (user_role (registered_user now d b))),
                  (''token'', JTok (access_jwt cfg now (registered_user now d b))),
                  (''refreshToken'', JTok (refresh_jwt cfg now (registered_user now d b))),
                  (''user'', user_view (registered_user now d b))])
       \<and> JWT_SECRET cfg \<noteq> [] \<and> JWT_REFRESH_SECRET cfg \<noteq> []"
  using assms unfolding post_register_cases
  by (auto simp: reply_def reply_error_def split: if_splits)

lemma post_login_200:
  assumes "post_login cfg now d b = (r, d')" "status r = 200"
    and "findOne_email d (js_string (login_email b)) = Some usr"
  shows "r = Response 200
           (JObj [(''message'', JStr ''Login successful''),
                  (''token'', JTok (access_jwt cfg now usr)),
                  (''refreshToken'', JTok (refresh_jwt cfg now usr)),
                  (''user'', user_view usr)])
       \<and> JWT_SECRET cfg \<noteq> [] \<and> JWT_REFRESH_SECRET cfg \<noteq> []"
  using assms
  by (auto simp: post_login_def Let_def reply_def reply_error_def access_token_cases
      refresh_token_cases split: if_splits sum.splits)

lemma find_map_same_key:
  "(\<And>x. P (f x) = P x) \<Longrightarrow> find P (map f xs) = map_option f (find P xs)"
  by (induction xs) simp_all

lemma find_append_none:
  "find P xs = None \<Longrightarrow> find P (xs @ ys) = find P ys"
  by (induction xs) (simp_all split: if_splits)

lemma findOne_email_pushed:
  "findOne_email d e = Some u \<Longrightarrow>
   findOne_email (push_refreshToken d (user_id u) t) e =
     Some (u\<lparr>refreshTokens := refreshTokens u @ [t]\<rparr>)"
proof -
  assume a: "findOne_email d e = Some u"
  let ?f = "\<lambda>x. if user_id x = user_id u then x\<lparr>refreshTokens := refreshTokens x @ [t]\<rparr> else x"
  have "find (\<lambda>x. user_email x = e) (map ?f (Users d)) =
        map_option ?f (find (\<lambda>x. user_email x = e) (Users d))"
    by (rule find_map_same_key) simp
  with a show ?thesis
    by (simp add: findOne_email_def push_refreshToken_def)
qed

lemma post_register_201_store:
  assumes "post_register cfg now d b = (r, d')" "status r = 201"
  shows "findOne_email d' (user_email (registered_user now d b)) =
           Some ((registered_user now d b)
                   \<lparr>refreshTokens := refreshTokens (registered_user now d b) @
                                      [refresh_jwt cfg now (registered_user now d b)]\<rparr>)"
proof -
  let ?u = "registered_user now d b"
  let ?d1 = "d\<lparr>next_oid := Suc (next_oid d), Users := Users d @ [?u]\<rparr>"
  have e: "user_email ?u = js_string (reg_email b)" and i: "user_id ?u = next_oid d"
    by (simp_all add: registered_user_def)
  from assms have none: "findOne_email d (js_string (reg_email b)) = None"
    and d': "d' = push_refreshToken ?d1 (next_oid d) (refresh_jwt cfg now ?u)"
    unfolding post_register_cases
    by (auto simp: reply_def reply_error_def split: if_splits)
  from none have "findOne_email ?d1 (user_email ?u) = Some ?u"
    by (simp add: findOne_email_def find_append_none e)
  from findOne_email_pushed [OF this] show ?thesis
    unfolding d' i .
qed

lemma post_login_200_store:
  assumes "post_login cfg now d b = (r, d')" "status r = 200"
    and "findOne_email d (js_string (login_email b)) = Some usr"
  shows "findOne_email d' (user_email usr) =
           Some (usr\<lparr>refreshTokens := refreshTokens usr @ [refresh_jwt cfg now usr]\<rparr>)"
proof -
  from assms(3) have e: "user_email usr = js_string (login_email b)"
    by (auto simp: findOne_email_def find_Some_iff)
  from assms have d': "d' = push_refreshToken d (user_id usr) (refresh_jwt cfg now usr)"
    by (auto simp: post_login_def Let_def reply_def reply_error_def access_token_cases
      refresh_token_cases split: if_splits sum.splits)
  from findOne_email_pushed [OF assms(3)] show ?thesis
    unfolding d' e .
qed

text \<open>
  Claim C7, as stated, fails in its last part: nothing makes the two secrets distinct. With
  a configuration that gives \<open>JWT_SECRET\<close> and \<open>JWT_REFRESH_SECRET\<close> the same value, the two
  tokens of a registration are signed with one secret, and the refresh token, presented as
  a bearer token, passes the middleware.
\<close>

theorem shared_secret_signs_both_tokens:
  "JWT_SECRET cfg_shared = JWT_REFRESH_SECRET cfg_shared
   \<and> field ''token'' (body (fst (post_register cfg_shared 0 empty_db first_body))) =
       Some (JTok (Jwt \<lparr>userId = 0, role_claim = Some ''admin''\<rparr> ''shared-secret'' 900))
   \<and> field ''refreshToken'' (body (fst (post_register cfg_shared 0 empty_db first_body))) =
       Some (JTok (Jwt \<lparr>userId = 0, role_claim = None\<rparr> ''shared-secret'' 604800))
   \<and> authenticateToken cfg_shared 20 (snd (post_register cfg_shared 0 empty_db first_body))
        (bearer_headers (Jwt \<lparr>userId = 0, role_claim = None\<rparr> ''shared-secret'' 604800)
           (Some ''first@x.com'')) =
       Next (first_user\<lparr>refreshTokens :=
               [Jwt \<lparr>userId = 0, role_claim = None\<rparr> ''shared-secret'' 604800]\<rparr>)"
proof -
  have r: "post_register cfg_shared 0 empty_db first_body =
    (Response 201
      (JObj [(''message'', JStr ''User registered successfully''),
             (''role'', JStr ''admin''),
             (''token'', JTok (Jwt \<lparr>userId = 0, role_claim = Some ''admin''\<rparr> ''shared-secret'' 900)),
             (''refreshToken'', JTok (Jwt \<lparr>userId = 0, role_claim = None\<rparr> ''shared-secret'' 604800)),
             (''user'', JObj [(''id'', JOid 0), (''name'', JStr ''First''),
                              (''email'', JStr ''first@x.com''), (''role'', JStr ''admin'')])]),
     db_one\<lparr>Users := [first_user\<lparr>refreshTokens :=
               [Jwt \<lparr>userId = 0, role_claim = None\<rparr> ''shared-secret'' 604800]\<rparr>]\<rparr>)"
    by (simp add: scen reg_defs cfg_shared_def)
  have a: "authenticateToken cfg_shared 20
        (db_one\<lparr>Users := [first_user\<lparr>refreshTokens :=
               [Jwt \<lparr>userId = 0, role_claim = None\<rparr> ''shared-secret'' 604800]\<rparr>]\<rparr>)
        (bearer_headers (Jwt \<lparr>userId = 0, role_claim = None\<rparr> ''shared-secret'' 604800)
           (Some ''first@x.com'')) =
       Next (first_user\<lparr>refreshTokens :=
               [Jwt \<lparr>userId = 0, role_claim = None\<rparr> ''shared-secret'' 604800]\<rparr>)"
    by (simp add: authenticateToken_def run_defs cfg_shared_def)
  show ?thesis unfolding r using a by (simp add: cfg_shared_def)
qed

text \<open>
  Claim C7, amended. The token pair returned by a successful registration belongs to the
  user stored for the request, and the pair returned by a successful login to the stored
  user with the email of the request. The access token carries that user's id and role, is
  signed with \<open>JWT_SECRET\<close> and expires after the access lifetime; the refresh token carries
  the user's id and no role, is signed with \<open>JWT_REFRESH_SECRET\<close> and expires after the
  refresh lifetime. After the request the store holds that user with the refresh token
  appended to the user's stored tokens. The tokens are signed with two different secrets
  exactly when the configuration gives the two variables different values.
\<close>

theorem issued_token_claims:
  assumes "(post_register cfg now d rb = (r, d') \<and> status r = 201 \<and> u = registered_user now d rb)
         \<or> (post_login cfg now d lb = (r, d') \<and> status r = 200 \<and>
            findOne_email d (js_string (login_email lb)) = Some u)"
  shows "\<exists>a t. field ''user'' (body r) = Some (user_view u)
      \<and> field ''token'' (body r) = Some (JTok a)
      \<and> field ''refreshToken'' (body r) = Some (JTok t)
      \<and> a = Jwt \<lparr>userId = user_id u, role_claim = Some (user_role u)\<rparr>
                (JWT_SECRET cfg) (now + access_expiresIn cfg)
      \<and> t = Jwt \<lparr>userId = user_id u, role_claim = None\<rparr>
                (JWT_REFRESH_SECRET cfg) (now + refresh_expiresIn cfg)
      \<and> findOne_email d' (user_email u) = Some (u\<lparr>refreshTokens := refreshTokens u @ [t]\<rparr>)
      \<and> (signing_secret a \<noteq> signing_secret t) = (JWT_SECRET cfg \<noteq> JWT_REFRESH_SECRET cfg)"
  using assms
proof
  assume a: "post_register cfg now d rb = (r, d') \<and> status r = 201 \<and> u = registered_user now d rb"
  then have "r = Response 201
           (JObj [(''message'', JStr ''User registered successfully''),
                  (''role'', JStr (user_role u)),
                  (''token'', JTok (access_jwt cfg now u)),
                  (''refreshToken'', JTok (refresh_jwt cfg now u)),
                  (''user'', user_view u)])"
    using post_register_201 by blast
  moreover from a have "findOne_email d' (user_email u) =
      Some (u\<lparr>refreshTokens := refreshTokens u @ [refresh_jwt cfg now u]\<rparr>)"
    using post_register_201_store by blast
  ultimately show ?thesis
    by (simp add: access_jwt_def refresh_jwt_def)
next
  assume a: "post_login cfg now d lb = (r, d') \<and> status r = 200 \<and>
            findOne_email d (js_string (login_email lb)) = Some u"
  then have "r = Response 200
           (JObj [(''message'', JStr ''Login successful''),
                  (''token'', JTok (access_jwt cfg now u)),
                  (''refreshToken'', JTok (refresh_jwt cfg now u)),
                  (''user'', user_view u)])"
    using post_login_200 by blast
  moreover from a have "findOne_email d' (user_email u) =
      Some (u\<lparr>refreshTokens := refreshTokens u @ [refresh_jwt cfg now u]\<rparr>)"
    using post_login_200_store by blast
  ultimately show ?thesis
    by (simp add: access_jwt_def refresh_jwt_def)
qed

lemma login_first:
  "post_login cfg0 10 db_one first_login =
    (Response 200
      (JObj [(''message'', JStr ''Login successful''),
             (''token'', JTok (Jwt \<lparr>userId = 0, role_claim = Some ''admin''\<rparr> ''access-secret'' 910)),
             (''refreshToken'', JTok second_refresh),
             (''user'', JObj [(''id'', JOid 0), (''name'', JStr ''First''),
                              (''email'', JStr ''first@x.com''), (''role'', JStr ''admin'')])]),
     db_relogged)"
  by (simp add: scen reg_defs post_login_def first_login_def db_relogged_def second_refresh_def
      first_refresh_def)

theorem issued_token_claims_witness:
  "status (fst (post_register cfg0 0 empty_db first_body)) = 201
   \<and> registered_user 0 empty_db first_body = first_user\<lparr>refreshTokens := []\<rparr>
   \<and> field ''token'' (body (fst (post_register cfg0 0 empty_db first_body))) =
       Some (JTok (Jwt \<lparr>userId = 0, role_claim = Some ''admin''\<rparr> ''access-secret'' 900))
   \<and> field ''refreshToken'' (body (fst (post_register cfg0 0 empty_db first_body))) =
       Some (JTok (Jwt \<lparr>userId = 0, role_claim = None\<rparr> ''refresh-secret'' 604800))
   \<and> status (fst (post_login cfg0 10 db_one first_login)) = 200
   \<and> findOne_email db_one (js_string (login_email first_login)) = Some first_user
   \<and> field ''token'' (body (fst (post_login cfg0 10 db_one first_login))) =
       Some (JTok (Jwt \<lparr>userId = 0, role_claim = Some ''admin''\<rparr> ''access-secret'' 910))
   \<and> field ''refreshToken'' (body (fst (post_login cfg0 10 db_one first_login))) =
       Some (JTok (Jwt \<lparr>userId = 0, role_claim = None\<rparr> ''refresh-secret'' 604810))
   \<and> signing_secret (Jwt \<lparr>userId = 0, role_claim = Some ''admin''\<rparr> ''access-secret'' 910) \<noteq>
     signing_secret (Jwt \<lparr>userId = 0, role_claim = None\<rparr> ''refresh-secret'' 604810)"
proof -
  let ?r = "fst (post_register cfg0 0 empty_db first_body)"
  let ?l = "fst (post_login cfg0 10 db_one first_login)"
  have st: "status ?r = 201" by (simp add: register_first)
  have run: "post_register cfg0 0 empty_db first_body =
      (?r, snd (post_register cfg0 0 empty_db first_body))"
    by simp
  have u: "registered_user 0 empty_db first_body = first_user\<lparr>refreshTokens := []\<rparr>"
    by (simp add: registered_user_def scen bcrypt_hash_def)
  have sl: "status ?l = 200" by (simp add: login_first)
  have runl: "post_login cfg0 10 db_one first_login =
      (?l, snd (post_login cfg0 10 db_one first_login))"
    by simp
  have f: "findOne_email db_one (js_string (login_email first_login)) = Some first_user"
    by (simp add: findOne_email_def db_one_def first_user_def first_login_def)
  have c: "JWT_SECRET cfg0 = ''access-secret''" "JWT_REFRESH_SECRET cfg0 = ''refresh-secret''"
    "access_expiresIn cfg0 = 900" "refresh_expiresIn cfg0 = 604800"
    by (simp_all add: cfg0_def access_expiresIn_def refresh_expiresIn_def)
  have v: "user_id first_user = 0" "user_role first_user = ''admin''"
    by (simp_all add: first_user_def)
  from issued_token_claims [where cfg = cfg0 and now = 0 and d = empty_db and rb = first_body
      and r = ?r and d' = "snd (post_register cfg0 0 empty_db first_body)"
      and u = "first_user\<lparr>refreshTokens := []\<rparr>"] run st u
  have 1: "field ''token'' (body ?r) =
       Some (JTok (Jwt \<lparr>userId = 0, role_claim = Some ''admin''\<rparr> ''access-secret'' 900))"
    "field ''refreshToken'' (body ?r) =
       Some (JTok (Jwt \<lparr>userId = 0, role_claim = None\<rparr> ''refresh-secret'' 604800))"
    by (auto simp: c v)
  from issued_token_claims [where cfg = cfg0 and now = 10 and d = db_one and lb = first_login
      and r = ?l and d' = "snd (post_login cfg0 10 db_one first_login)" and u = first_user] runl sl f
  have 2: "field ''token'' (body ?l) =
       Some (JTok (Jwt \<lparr>userId = 0, role_claim = Some ''admin''\<rparr> ''access-secret'' 910))"
    "field ''refreshToken'' (body ?l) =
       Some (JTok (Jwt \<lparr>userId = 0, role_claim = None\<rparr> ''refresh-secret'' 604810))"
    by (auto simp: c v)
  have 3: "signing_secret (Jwt \<lparr>userId = 0, role_claim = Some ''admin''\<rparr> ''access-secret'' 910) \<noteq>
     signing_secret (Jwt \<lparr>userId = 0, role_claim = None\<rparr> ''refresh-secret'' 604810)"
    by simp
  show ?thesis by (intro conjI) (rule st u 1 sl f 2 3)+
qed

section \<open>Revocation through the refresh-token scan\<close>

lemma refresh_matches_iff:
  "refresh_matches cfg now decoded t \<longleftrightarrow>
     (\<exists>p e. t = Jwt p (JWT_REFRESH_SECRET cfg) e \<and> now < e \<and> userId p = userId decoded)"
  by (cases t) (auto simp: refresh_matches_def)

lemma list_ex_refresh_matches:
  "list_ex (refresh_matches cfg now decoded) ts \<longleftrightarrow>
     (\<exists>p e. Jwt p (JWT_REFRESH_SECRET cfg) e \<in> set ts \<and> now < e \<and> userId p = userId decoded)"
  by (induction ts) (auto simp: refresh_matches_iff)

text \<open>
  Claim C2, amended. For a request whose access token is signed with the access secret and
  unexpired, and whose user id and email select the stored user \<open>usr\<close>, the middleware
  answers 403 \<open>TOKEN_INVALIDATED\<close> exactly when no refresh token stored for \<open>usr\<close> is signed
  with the refresh secret, unexpired, and carries the user id of the access token (so in
  particular when all of the user's refresh tokens have been removed, also before the access
  token expires); when at least one such refresh token is stored, of whichever session, the
  request passes the scan and \<open>usr\<close> is attached to it.
\<close>

theorem refresh_scan_decides:
  assumes "bearer (authorization h) = Some (Jwt decoded (JWT_SECRET cfg) exp)" and "now < exp"
    and "hdr_email h = Some em" and "em \<noteq> []"
    and "findOne_id_email d (userId decoded) em = Some usr"
  shows "authenticateToken cfg now d h =
     (if \<exists>p e. Jwt p (JWT_REFRESH_SECRET cfg) e \<in> set (refreshTokens usr) \<and> now < e \<and>
               userId p = userId decoded
      then Next usr
      else Halt (reject 403 ''Token invalidated'' ''TOKEN_INVALIDATED''))"
proof -
  have v: "jwt_verify (Jwt decoded (JWT_SECRET cfg) exp) (JWT_SECRET cfg) now = Inr decoded"
    using assms(2) by simp
  have "authenticateToken cfg now d h =
      (if list_ex (refresh_matches cfg now decoded) (refreshTokens usr) then Next usr
       else Halt (reject 403 ''Token invalidated'' ''TOKEN_INVALIDATED''))"
    using authenticateToken_checked [OF assms(1) _ assms(3,4), of cfg now d] v assms(5)
    by simp
  then show ?thesis by (simp only: list_ex_refresh_matches)
qed

lemma revoked_users:
  "Users db_revoked =
     map (\<lambda>u. u\<lparr>refreshTokens := removeAll first_refresh (refreshTokens u)\<rparr>) (Users db_relogged)"
  by (simp add: db_revoked_def db_relogged_def db_one_def first_refresh_def second_refresh_def)

lemma revoked_accepts:
  "authenticateToken cfg0 20 db_revoked (bearer_headers first_access (Some ''first@x.com'')) =
     Next (first_user\<lparr>refreshTokens := [second_refresh]\<rparr>)"
  by (simp add: authenticateToken_def run_defs db_revoked_def second_refresh_def)

text \<open>
  Claim C2, as stated, fails. The first user registers at time 0 (first session: access
  token and first refresh token) and logs in at time 10 (second session). The refresh token
  of the first session is then removed from the user's stored tokens. At time 20 the access
  token of the first session, still unexpired, is presented: the middleware accepts it,
  because the refresh token of the second session verifies and carries the same user id.
\<close>

theorem removed_session_still_accepted:
  "field ''token'' (body (fst (post_register cfg0 0 empty_db first_body))) = Some (JTok first_access)
   \<and> field ''refreshToken'' (body (fst (post_register cfg0 0 empty_db first_body))) =
       Some (JTok first_refresh)
   \<and> snd (post_register cfg0 0 empty_db first_body) = db_one
   \<and> snd (post_login cfg0 10 db_one first_login) = db_relogged
   \<and> Users db_relogged = [first_user\<lparr>refreshTokens := [first_refresh, second_refresh]\<rparr>]
   \<and> Users db_revoked =
       [first_user\<lparr>refreshTokens := removeAll first_refresh [first_refresh, second_refresh]\<rparr>]
   \<and> jwt_verify first_access (JWT_SECRET cfg0) 20 = Inr \<lparr>userId = 0, role_claim = Some ''admin''\<rparr>
   \<and> authenticateToken cfg0 20 db_revoked (bearer_headers first_access (Some ''first@x.com'')) =
       Next (first_user\<lparr>refreshTokens := [second_refresh]\<rparr>)
   \<and> authenticateToken cfg0 20 db_revoked (bearer_headers first_access (Some ''first@x.com'')) \<noteq>
       Halt (reject 403 ''Token invalidated'' ''TOKEN_INVALIDATED'')"
proof -
  have 1: "field ''token'' (body (fst (post_register cfg0 0 empty_db first_body))) =
      Some (JTok first_access)"
    "field ''refreshToken'' (body (fst (post_register cfg0 0 empty_db first_body))) =
       Some (JTok first_refresh)"
    "snd (post_register cfg0 0 empty_db first_body) = db_one"
    by (simp_all add: register_first first_access_def first_refresh_def)
  have 2: "snd (post_login cfg0 10 db_one first_login) = db_relogged"
    by (simp add: login_first)
  have 3: "Users db_relogged = [first_user\<lparr>refreshTokens := [first_refresh, second_refresh]\<rparr>]"
    "Users db_revoked =
       [first_user\<lparr>refreshTokens := removeAll first_refresh [first_refresh, second_refresh]\<rparr>]"
    by (simp_all add: db_relogged_def db_revoked_def db_one_def first_refresh_def second_refresh_def)
  have 4: "jwt_verify first_access (JWT_SECRET cfg0) 20 = Inr \<lparr>userId = 0, role_claim = Some ''admin''\<rparr>"
    by (simp add: first_access_def cfg0_def)
  note 5 = revoked_accepts
  have 6: "authenticateToken cfg0 20 db_revoked (bearer_headers first_access (Some ''first@x.com'')) \<noteq>
       Halt (reject 403 ''Token invalidated'' ''TOKEN_INVALIDATED'')"
    unfolding 5 by simp
  show ?thesis
    by (intro conjI) (rule 1 2 3 4 5 6)+
qed

theorem refresh_scan_decides_witness:
  "authenticateToken cfg0 20 db_logged_out (bearer_headers first_access (Some ''first@x.com'')) =
      Halt (reject 403 ''Token invalidated'' ''TOKEN_INVALIDATED'')
   \<and> authenticateToken cfg0 20 db_revoked (bearer_headers first_access (Some ''first@x.com'')) =
      Next (first_user\<lparr>refreshTokens := [second_refresh]\<rparr>)"
proof -
  let ?h = "bearer_headers first_access (Some ''first@x.com'')"
  let ?p = "\<lparr>userId = 0, role_claim = Some ''admin''\<rparr>"
  have b: "bearer (authorization ?h) = Some (Jwt ?p (JWT_SECRET cfg0) 900)"
    by (simp add: bearer_headers_def first_access_def cfg0_def)
  have t: "(20::nat) < 900" by simp
  have e: "hdr_email ?h = Some ''first@x.com''" "''first@x.com'' \<noteq> []"
    by (simp_all add: bearer_headers_def)
  have f1: "findOne_id_email db_logged_out (userId ?p) ''first@x.com'' =
      Some (first_user\<lparr>refreshTokens := []\<rparr>)"
    by (simp add: findOne_id_email_def db_logged_out_def db_one_def first_user_def)
  have f2: "findOne_id_email db_revoked (userId ?p) ''first@x.com'' =
      Some (first_user\<lparr>refreshTokens := [second_refresh]\<rparr>)"
    by (simp add: findOne_id_email_def db_revoked_def db_one_def first_user_def)
  have r1: "authenticateToken cfg0 20 db_logged_out ?h =
      Halt (reject 403 ''Token invalidated'' ''TOKEN_INVALIDATED'')"
    using refresh_scan_decides [OF b t e f1] by simp
  have r2: "authenticateToken cfg0 20 db_revoked ?h =
      Next (first_user\<lparr>refreshTokens := [second_refresh]\<rparr>)"
    using refresh_scan_decides [OF b t e f2] by (simp add: second_refresh_def cfg0_def)
  show ?thesis by (intro conjI) (rule r1 r2)+
qed

section \<open>Role checks and lesson creation in the catalog\<close>

lemma student_authenticated:
  "authenticateToken cfg0 20 db_two student_headers = Next second_user"
  by (simp add: authenticateToken_def scen student_headers_def student_access_def
      findOne_id_email_def refresh_matches_def)

lemma admin_authenticated:
  "authenticateToken cfg0 20 db_two (bearer_headers first_access (Some ''first@x.com'')) =
     Next first_user"
  by (simp add: authenticateToken_def run_defs)

text \<open>
  Claim C3 holds on eight of the nine mutating routes and fails on \<open>POST /api/courses\<close>,
  which is commented as admin only but compares the \<open>role\<close> header of the request instead
  of the role of the authenticated user. The second registered user, a student, presents
  valid credentials and the header \<open>role: admin\<close>: the course is created. The first user, the
  admin, presents valid credentials without that header: the request is refused.
\<close>

theorem student_creates_course:
  "authenticateToken cfg0 20 db_two student_headers = Next second_user
   \<and> user_role second_user = ''student''
   \<and> route cfg0 20 db_two student_headers (PostCourse algebra_body) =
       (Replied (Response 201 (course_json algebra)),
        db_two\<lparr>Courses := [algebra], next_oid := 3\<rparr>)
   \<and> authenticateToken cfg0 20 db_two (bearer_headers first_access (Some ''first@x.com'')) =
       Next first_user
   \<and> user_role first_user = ''admin''
   \<and> route cfg0 20 db_two (bearer_headers first_access (Some ''first@x.com''))
         (PostCourse algebra_body) = (Replied forbidden, db_two)"
proof -
  have 1: "route cfg0 20 db_two student_headers (PostCourse algebra_body) =
       (Replied (Response 201 (course_json algebra)),
        db_two\<lparr>Courses := [algebra], next_oid := 3\<rparr>)"
    unfolding route_def student_authenticated
    by (simp add: post_courses_def save_course_def Let_def
        student_headers_def algebra_body_def algebra_def db_two_def second_user_def)
  have 2: "route cfg0 20 db_two (bearer_headers first_access (Some ''first@x.com''))
         (PostCourse algebra_body) = (Replied forbidden, db_two)"
    unfolding route_def admin_authenticated
    by (simp add: post_courses_def bearer_headers_def)
  have 3: "user_role second_user = ''student''" "user_role first_user = ''admin''"
    by (simp_all add: second_user_def first_user_def)
  show ?thesis
    by (intro conjI) (rule 1 2 3 student_authenticated admin_authenticated)+
qed

text \<open>
  The other eight routes compare the role of the authenticated user: for a user who is
  not an admin they answer 403 and leave the store as it was. The create-course route
  answers by the \<open>role\<close> header alone.
\<close>

lemma role_gate_on_user:
  assumes "authenticateToken cfg now d h = Next usr" and "user_role usr \<noteq> ''admin''"
    and "case m of PostCourse b \<Rightarrow> False | _ \<Rightarrow> True"
  shows "route cfg now d h m = (Replied forbidden, d)"
  using assms
  by (cases m)
     (simp_all add: route_def put_courses_def delete_courses_def post_lessons_def put_lessons_def
        delete_lessons_def post_assignments_def put_assignments_def delete_assignments_def)

lemma role_gate_on_header:
  assumes "authenticateToken cfg now d h = Next usr" and "hdr_role h \<noteq> Some ''admin''"
  shows "route cfg now d h (PostCourse b) = (Replied forbidden, d)"
  using assms by (simp add: route_def post_courses_def)

lemma findCourse_push_lesson:
  "findCourse d c = Some C \<Longrightarrow>
   findCourse (push_lesson d c i) c = Some (C\<lparr>course_lessons := course_lessons C @ [i]\<rparr>)"
proof -
  assume a: "findCourse d c = Some C"
  then have cid: "course_id C = c"
    by (auto simp: findCourse_def find_Some_iff)
  let ?f = "\<lambda>x. if course_id x = c then x\<lparr>course_lessons := course_lessons x @ [i]\<rparr> else x"
  have "find (\<lambda>x. course_id x = c) (map ?f (Courses d)) =
        map_option ?f (find (\<lambda>x. course_id x = c) (Courses d))"
    by (rule find_map_same_key) simp
  with a cid show ?thesis
    by (simp add: findCourse_def push_lesson_def)
qed

lemma planted_update:
  "put_courses first_user db_course 2 plant_update =
     (Replied (Response 200 (course_json (geometry\<lparr>course_lessons := [3]\<rparr>))), db_planted)"
  by (simp add: put_courses_def findCourse_def db_course_def db_two_def geometry_def
      plant_update_def db_planted_def apply_course_update_def first_user_def Let_def)

lemma planted_lesson:
  "post_lessons first_user db_planted 2 angles_body =
     (Replied (Response 201 (lesson_json angles)),
      db_planted\<lparr>Lessons := [angles], next_oid := 4,
                 Courses := [geometry\<lparr>course_lessons := [3, 3]\<rparr>]\<rparr>)"
  by (simp add: post_lessons_def save_lesson_def push_lesson_def first_user_def angles_body_def
      angles_def db_planted_def db_course_def db_two_def geometry_def Let_def)

text \<open>
  Claim C8, as stated, fails. ObjectIds are generated in the server process, one after the
  other, so an id can be sent before it is generated: the admin first updates course 2 with
  the lesson list \<open>[3]\<close> (\<open>PUT /api/courses/2\<close>) and then creates a lesson under course 2,
  which receives the id 3. The id is pushed without a check, and the lesson list of the
  course holds it twice.
\<close>

theorem planted_id_listed_twice:
  "put_courses first_user db_course 2 plant_update =
     (Replied (Response 200 (course_json (geometry\<lparr>course_lessons := [3]\<rparr>))), db_planted)
   \<and> findCourse db_planted 2 = Some (geometry\<lparr>course_lessons := [3]\<rparr>)
   \<and> post_lessons first_user db_planted 2 angles_body =
       (Replied (Response 201 (lesson_json angles)),
        db_planted\<lparr>Lessons := [angles], next_oid := 4,
                   Courses := [geometry\<lparr>course_lessons := [3, 3]\<rparr>]\<rparr>)
   \<and> lesson_id angles = 3
   \<and> count_list [3, 3] (lesson_id angles) = 2"
proof -
  have 1: "findCourse db_planted 2 = Some (geometry\<lparr>course_lessons := [3]\<rparr>)"
    by (simp add: findCourse_def db_planted_def db_course_def geometry_def)
  have 2: "lesson_id angles = 3" "count_list [3, 3] (lesson_id angles) = 2"
    by (simp_all add: angles_def)
  show ?thesis by (intro conjI) (rule planted_update planted_lesson 1 2)+
qed

text \<open>
  Claim C8, amended. When creating a lesson under an existing course \<open>C\<close> succeeds (status
  201), the lesson stored refers to \<open>C\<close> as its course, and the lesson list of \<open>C\<close> afterwards
  is the list before with the lesson's id appended once at its end. The id then occurs in
  the list once more than before, and so exactly once if and only if it did not occur in
  the list before the request.
\<close>

theorem lesson_appended_once:
  assumes "post_lessons usr d c b = (Replied r, d')" and "status r = 201"
    and "findCourse d c = Some C"
  shows "\<exists>l. r = Response 201 (lesson_json l) \<and> lesson_id l = next_oid d
           \<and> Lessons d' = Lessons d @ [l] \<and> lesson_course l = c
           \<and> findCourse d' c = Some (C\<lparr>course_lessons := course_lessons C @ [lesson_id l]\<rparr>)
           \<and> count_list (course_lessons C @ [lesson_id l]) (lesson_id l) =
               Suc (count_list (course_lessons C) (lesson_id l))
           \<and> (count_list (course_lessons C @ [lesson_id l]) (lesson_id l) = 1) =
               (lesson_id l \<notin> set (course_lessons C))"
proof -
  let ?l = "\<lparr>lesson_id = next_oid d, lesson_title = js_string (body_title b),
             youtubeLink = js_string (body_youtubeLink b), lesson_course = c\<rparr>"
  let ?d1 = "d\<lparr>Lessons := Lessons d @ [?l], next_oid := Suc (next_oid d)\<rparr>"
  from assms(1,2) have ok: "user_role usr = ''admin''"
    "\<not> (falsy (body_title b) \<or> falsy (body_youtubeLink b))"
    by (auto simp: post_lessons_def save_lesson_def forbidden_def reply_def split: if_splits)
  then have res: "r = Response 201 (lesson_json ?l)" "d' = push_lesson ?d1 c (next_oid d)"
    using assms(1) by (simp_all add: post_lessons_def save_lesson_def Let_def)
  have fc: "findCourse ?d1 c = Some C"
    using assms(3) by (simp add: findCourse_def)
  have 1: "findCourse d' c = Some (C\<lparr>course_lessons := course_lessons C @ [next_oid d]\<rparr>)"
    unfolding res(2) by (rule findCourse_push_lesson [OF fc])
  have 2: "Lessons d' = Lessons d @ [?l]"
    unfolding res(2) by (simp add: push_lesson_def)
  have 3: "(count_list (course_lessons C) (next_oid d) = 0) =
           (next_oid d \<notin> set (course_lessons C))"
    by (rule count_list_0_iff)
  show ?thesis
    by (rule exI [of _ ?l]) (simp add: res(1) 1 2 3)
qed

theorem lesson_appended_once_witness:
  "post_lessons first_user db_course 2 angles_body =
     (Replied (Response 201 (lesson_json angles)),
      db_course\<lparr>Lessons := [angles], next_oid := 4,
                Courses := [geometry\<lparr>course_lessons := [3]\<rparr>]\<rparr>)
   \<and> findCourse db_course 2 = Some geometry
   \<and> findCourse (db_course\<lparr>Lessons := [angles], next_oid := 4,
                            Courses := [geometry\<lparr>course_lessons := [3]\<rparr>]\<rparr>) 2 =
       Some (geometry\<lparr>course_lessons := course_lessons geometry @ [3]\<rparr>)
   \<and> count_list (course_lessons geometry @ [3]) 3 = 1
   \<and> findCourse db_planted 2 = Some (geometry\<lparr>course_lessons := [3]\<rparr>)
   \<and> findCourse (db_planted\<lparr>Lessons := [angles], next_oid := 4,
                             Courses := [geometry\<lparr>course_lessons := [3, 3]\<rparr>]\<rparr>) 2 =
       Some (geometry\<lparr>course_lessons := [3] @ [3]\<rparr>)
   \<and> count_list ([3] @ [3]) 3 = Suc (count_list [3] (3::nat))"
proof -
  let ?d' = "db_course\<lparr>Lessons := [angles], next_oid := 4,
                Courses := [geometry\<lparr>course_lessons := [3]\<rparr>]\<rparr>"
  let ?p' = "db_planted\<lparr>Lessons := [angles], next_oid := 4,
                Courses := [geometry\<lparr>course_lessons := [3, 3]\<rparr>]\<rparr>"
  have run: "post_lessons first_user db_course 2 angles_body =
     (Replied (Response 201 (lesson_json angles)), ?d')"
    by (simp add: post_lessons_def save_lesson_def push_lesson_def first_user_def angles_body_def
        angles_def db_course_def db_two_def geometry_def Let_def)
  have st: "status (Response 201 (lesson_json angles)) = 201" by simp
  have fc: "findCourse db_course 2 = Some geometry"
    by (simp add: findCourse_def db_course_def geometry_def)
  have fp: "findCourse db_planted 2 = Some (geometry\<lparr>course_lessons := [3]\<rparr>)"
    by (simp add: findCourse_def db_planted_def db_course_def geometry_def)
  have n: "next_oid db_course = 3" "next_oid db_planted = 3"
    by (simp_all add: db_course_def db_planted_def)
  have g: "course_lessons (geometry\<lparr>course_lessons := [3]\<rparr>) = [3]"
    "geometry\<lparr>course_lessons := [3], course_lessons := [3] @ [3]\<rparr> =
     geometry\<lparr>course_lessons := [3] @ [3]\<rparr>"
    by simp_all
  from lesson_appended_once [OF run st fc]
  obtain l :: lesson where l: "lesson_id l = next_oid db_course"
    "findCourse ?d' 2 = Some (geometry\<lparr>course_lessons := course_lessons geometry @ [lesson_id l]\<rparr>)"
    "(count_list (course_lessons geometry @ [lesson_id l]) (lesson_id l) = 1) =
       (lesson_id l \<notin> set (course_lessons geometry))"
    by blast
  from l n have a: "findCourse ?d' 2 = Some (geometry\<lparr>course_lessons := course_lessons geometry @ [3]\<rparr>)"
    and b: "count_list (course_lessons geometry @ [3]) 3 = 1"
    by (simp_all add: geometry_def)
  from lesson_appended_once [OF planted_lesson st fp]
  obtain k :: lesson where k: "lesson_id k = next_oid db_planted"
    "findCourse ?p' 2 = Some (geometry\<lparr>course_lessons := [3],
        course_lessons := course_lessons (geometry\<lparr>course_lessons := [3]\<rparr>) @ [lesson_id k]\<rparr>)"
    "count_list (course_lessons (geometry\<lparr>course_lessons := [3]\<rparr>) @ [lesson_id k]) (lesson_id k) =
       Suc (count_list (course_lessons (geometry\<lparr>course_lessons := [3]\<rparr>)) (lesson_id k))"
    by blast
  from k n have c: "findCourse ?p' 2 = Some (geometry\<lparr>course_lessons := [3] @ [3]\<rparr>)"
    and e: "count_list ([3] @ [3]) 3 = Suc (count_list [3] (3::nat))"
    by (simp_all add: g)
  show ?thesis by (intro conjI) (rule run fc a b fp c e)+
qed

section \<open>Properties of the notification service\<close>

lemma provider_key_nonempty: "toLowerCase w \<in> set provider_keys \<Longrightarrow> w \<noteq> []"
  by (auto simp: provider_keys_def toLowerCase_def)

lemma save_transaction_valid:
  assumes "wallet b = Some w" "w \<noteq> []" "email b = Some e" "e \<noteq> []" "date clk \<noteq> []" "time clk \<noteq> []"
  shows "save_transaction txs clk b =
     Inr (txs @ [\<lparr>tx_wallet = w, tx_amount = js_string (amount b) @ '' '' @ js_string (coin b),
                   tx_email = e, tx_date = date clk, tx_time = time clk, tx_status = ''Sent''\<rparr>])"
  using assms by (simp add: save_transaction_def Let_def)

text \<open>
  Claim C9. For a request whose wallet, lower-cased, is one of the provider keys, with
  amount \<open>a\<close>, coin \<open>c\<close> and a recipient email: the record with amount \<open>a\<close>, a space and \<open>c\<close>
  and with status Sent is appended to the store before the mail is handed to the relay. The
  response is 200 when the relay accepts the mail; when the relay rejects it the response is
  500 and the record is still in the store, its status still Sent.
\<close>

theorem send_email_records_before_dispatch:
  assumes "wallet b = Some w" and "toLowerCase w \<in> set provider_keys"
    and "amount b = Some a" and "coin b = Some c"
    and "email b = Some e" and "e \<noteq> []" and "date clk \<noteq> []" and "time clk \<noteq> []"
  shows "\<exists>resp. post_send_email gmail_user sendMail clk txs b =
           (resp, txs @ [\<lparr>tx_wallet = w, tx_amount = a @ '' '' @ c, tx_email = e,
                           tx_date = date clk, tx_time = time clk, tx_status = ''Sent''\<rparr>])
         \<and> status resp =
             (if sendMail (confirmation_mail gmail_user b
                    (Rendered (toLowerCase w) (template_context clk b))) = None
              then 200 else 500)"
proof -
  have w: "w \<noteq> []" using assms(2) by (rule provider_key_nonempty)
  have s: "save_transaction txs clk b =
     Inr (txs @ [\<lparr>tx_wallet = w, tx_amount = a @ '' '' @ c, tx_email = e,
                   tx_date = date clk, tx_time = time clk, tx_status = ''Sent''\<rparr>])"
    using save_transaction_valid [OF assms(1) w assms(5-8), of txs] assms(3,4) by simp
  have t: "templates (toLowerCase (js_string (wallet b))) = Compiled (toLowerCase w)"
    using assms(1,2) by (simp add: templates_def)
  show ?thesis
    by (cases "sendMail (confirmation_mail gmail_user b
                    (Rendered (toLowerCase w) (template_context clk b)))")
       (simp_all add: post_send_email_def s t dispatch_def reply_def)
qed

theorem send_email_records_before_dispatch_witness:
  "snd (post_send_email (Some ''sender@gmail.com'') relay_up clock0 [] binance_body) =
      [binance_record]
   \<and> status (fst (post_send_email (Some ''sender@gmail.com'') relay_up clock0 [] binance_body)) = 200
   \<and> snd (post_send_email (Some ''sender@gmail.com'') relay_down clock0 [] binance_body) =
      [binance_record]
   \<and> status (fst (post_send_email (Some ''sender@gmail.com'') relay_down clock0 [] binance_body)) = 500"
proof -
  have h: "wallet binance_body = Some ''Binance''" "toLowerCase ''Binance'' \<in> set provider_keys"
    "amount binance_body = Some ''0.5''" "coin binance_body = Some ''BTC''"
    "email binance_body = Some ''a@b.com''" "''a@b.com'' \<noteq> []"
    "date clock0 \<noteq> []" "time clock0 \<noteq> []"
    by (simp_all add: binance_body_def clock0_def toLowerCase_def lower_char_def provider_keys_def)
  have rec: "[] @ [\<lparr>tx_wallet = ''Binance'', tx_amount = ''0.5'' @ '' '' @ ''BTC'',
      tx_email = ''a@b.com'', tx_date = date clock0, tx_time = time clock0,
      tx_status = ''Sent''\<rparr>] = [binance_record]"
    by (simp add: binance_record_def clock0_def)
  from send_email_records_before_dispatch [OF h, of "Some ''sender@gmail.com''" relay_up "[]"]
  obtain r1 where 1: "post_send_email (Some ''sender@gmail.com'') relay_up clock0 [] binance_body =
      (r1, [binance_record])" "status r1 = 200"
    unfolding rec by (auto simp: relay_up_def)
  from send_email_records_before_dispatch [OF h, of "Some ''sender@gmail.com''" relay_down "[]"]
  obtain r2 where 2: "post_send_email (Some ''sender@gmail.com'') relay_down clock0 [] binance_body =
      (r2, [binance_record])" "status r2 = 500"
    unfolding rec by (auto simp: relay_down_def)
  from 1 2 show ?thesis by simp
qed

text \<open>
  Claim C10, as stated, fails: a request with an unknown wallet and no recipient email is
  answered 500, but by the validation of the record, and no record has been stored.
\<close>

theorem unknown_wallet_nothing_stored:
  "toLowerCase ''Unknown'' = ''unknown''
   \<and> ''unknown'' \<notin> set provider_keys
   \<and> post_send_email (Some ''sender@gmail.com'') relay_up clock0 []
        (binance_body\<lparr>wallet := Some ''Unknown'', email := None\<rparr>) =
      (Response 500 (JObj [(''message'', JErr ValidationError)]), [])"
  by (simp add: toLowerCase_def lower_char_def provider_keys_def post_send_email_def
      save_transaction_def binance_body_def clock0_def)

text \<open>
  Claim C10, amended. For a request whose wallet is a non-empty string that, lower-cased,
  is neither one of the ten provider keys nor \<open>constructor\<close>, and whose recipient email
  is a non-empty string, so that the record passes validation: the response is 500, raised
  by the template lookup, and the record with status Sent, stored before the lookup, stays
  in the store.
\<close>

theorem unknown_wallet_record_kept:
  assumes "wallet b = Some w" and "w \<noteq> []"
    and "toLowerCase w \<notin> set provider_keys" and "toLowerCase w \<noteq> ''constructor''"
    and "email b = Some e" and "e \<noteq> []" and "date clk \<noteq> []" and "time clk \<noteq> []"
  shows "post_send_email gmail_user sendMail clk txs b =
           (Response 500 (JObj [(''message'', JErr TypeError)]),
            txs @ [\<lparr>tx_wallet = w, tx_amount = js_string (amount b) @ '' '' @ js_string (coin b),
                     tx_email = e, tx_date = date clk, tx_time = time clk,
                     tx_status = ''Sent''\<rparr>])"
proof -
  have t: "templates (toLowerCase (js_string (wallet b))) = NotCallable"
    using assms(1,3,4) by (simp add: templates_def)
  show ?thesis
    by (simp add: post_send_email_def t
        save_transaction_valid [OF assms(1,2) assms(5-8), of txs])
qed

theorem unknown_wallet_record_kept_witness:
  "toLowerCase ''Unknown'' \<notin> set provider_keys
   \<and> toLowerCase ''Unknown'' \<noteq> ''constructor''
   \<and> post_send_email (Some ''sender@gmail.com'') relay_up clock0 []
        (binance_body\<lparr>wallet := Some ''Unknown''\<rparr>) =
      (Response 500 (JObj [(''message'', JErr TypeError)]),
       [binance_record\<lparr>tx_wallet := ''Unknown''\<rparr>])"
proof -
  let ?b = "binance_body\<lparr>wallet := Some ''Unknown''\<rparr>"
  have l: "toLowerCase ''Unknown'' = ''unknown''"
    by (simp add: toLowerCase_def lower_char_def)
  have h: "wallet ?b = Some ''Unknown''" "''Unknown'' \<noteq> []"
    "toLowerCase ''Unknown'' \<notin> set provider_keys" "toLowerCase ''Unknown'' \<noteq> ''constructor''"
    "email ?b = Some ''a@b.com''" "''a@b.com'' \<noteq> []" "date clock0 \<noteq> []" "time clock0 \<noteq> []"
    by (simp_all add: l binance_body_def clock0_def provider_keys_def)
  have r: "post_send_email (Some ''sender@gmail.com'') relay_up clock0 [] ?b =
      (Response 500 (JObj [(''message'', JErr TypeError)]),
       [binance_record\<lparr>tx_wallet := ''Unknown''\<rparr>])"
    using unknown_wallet_record_kept [OF h, of "Some ''sender@gmail.com''" relay_up "[]"]
    by (simp add: binance_body_def binance_record_def clock0_def)
  show ?thesis by (intro conjI) (rule h(3) h(4) r)+
qed

text \<open>
  For the wallet name \<open>Constructor\<close> the lookup yields the inherited function; nothing
  is thrown before the dispatch, and the relay decides the response.
\<close>

lemma constructor_wallet_reaches_dispatch:
  "post_send_email (Some ''sender@gmail.com'') relay_up clock0 []
        (binance_body\<lparr>wallet := Some ''Constructor''\<rparr>) =
      (reply 200 ''Email sent successfully'', [binance_record\<lparr>tx_wallet := ''Constructor''\<rparr>])"
  by (simp add: toLowerCase_def lower_char_def provider_keys_def post_send_email_def templates_def
      save_transaction_def dispatch_def relay_up_def binance_body_def binance_record_def clock0_def)

end
